theory Spec2Isabelle
  imports Complex_Main
begin

section \<open>Strings and numbers of the host language\<close>

text \<open>
  JavaScript strings are modelled as \<open>string\<close> restricted to ASCII: \<open>toLowerCase\<close> maps
  the letters A..Z and leaves every other character alone. JavaScript numbers are
  modelled as exact reals: rounding of IEEE doubles is not part of the model, and the
  placement results below are stated for images of positive natural size, where no
  division yields Infinity or NaN.
\<close>

definition toLowerCase_char :: "char \<Rightarrow> char" where
  "toLowerCase_char c =
     (case map_of (zip ''ABCDEFGHIJKLMNOPQRSTUVWXYZ'' ''abcdefghijklmnopqrstuvwxyz'') c of
        Some l \<Rightarrow> l
      | None \<Rightarrow> c)"

definition toLowerCase :: "string \<Rightarrow> string" where
  "toLowerCase s = map toLowerCase_char s"

definition endsWith :: "string \<Rightarrow> string \<Rightarrow> bool" where
  "endsWith s suf = (length suf \<le> length s \<and> drop (length s - length suf) s = suf)"

definition startsWith :: "string \<Rightarrow> string \<Rightarrow> bool" where
  "startsWith s pre = (take (length pre) s = pre)"

text \<open>\<open>s.lastIndexOf(c)\<close>: the index of the last occurrence, \<open>-1\<close> when there is none.\<close>

fun lastIndexOf :: "string \<Rightarrow> char \<Rightarrow> int" where
  "lastIndexOf [] c = - 1"
| "lastIndexOf (x # xs) c =
     (let r = lastIndexOf xs c in if 0 \<le> r then r + 1 else if x = c then 0 else - 1)"

text \<open>\<open>s.substring(0, e)\<close>: a negative end counts as 0.\<close>

definition substring0 :: "string \<Rightarrow> int \<Rightarrow> string" where
  "substring0 s e = take (nat e) s"

text \<open>
  Node's \<open>path.extname\<close> on a file name without a directory separator (the names a
  storage listing returns): the text from the last dot on, and the empty string when
  there is no dot, when the only dot is the first character, or when the name is
  \<open>..\<close>.
\<close>

definition extname :: "string \<Rightarrow> string" where
  "extname p =
     (let i = lastIndexOf p (CHR ''.'')
      in if i \<le> 0 \<or> p = ''..'' then [] else drop (nat i) p)"

text \<open>\<open>path.basename\<close>: the text after the last slash.\<close>

definition basename :: "string \<Rightarrow> string" where
  "basename p = (let i = lastIndexOf p (CHR ''/'') in if i < 0 then p else drop (nat i + 1) p)"

text \<open>A number inside a template string: its decimal digits.\<close>

definition digit_char :: "nat \<Rightarrow> char" where
  "digit_char d = ''0123456789'' ! d"

fun show_nat :: "nat \<Rightarrow> string" where
  "show_nat n = (if n < 10 then [digit_char n] else show_nat (n div 10) @ [digit_char (n mod 10)])"

declare show_nat.simps [simp del]

text \<open>
  \<open>Math.random()\<close> yields a number \<open>r\<close> with \<open>0 \<le> r < 1\<close>; the source of randomness
  is an infinite sequence of such numbers, consumed from the front.
  \<open>Math.floor(Math.random() * n)\<close> is \<open>random_index r n\<close>.
\<close>

type_synonym rng = "nat \<Rightarrow> real"

definition next_random :: "rng \<Rightarrow> real \<times> rng" where
  "next_random g = (g 0, \<lambda>n. g (Suc n))"

definition random_index :: "real \<Rightarrow> nat \<Rightarrow> int" where
  "random_index r n = \<lfloor>r * real n\<rfloor>"

text \<open>\<open>xs[i]\<close>: \<open>undefined\<close> (here \<open>None\<close>) outside the list.\<close>

definition at_index :: "'a list \<Rightarrow> int \<Rightarrow> 'a option" where
  "at_index xs i = (if 0 \<le> i \<and> i < int (length xs) then Some (xs ! nat i) else None)"

section \<open>Data model\<close>

text \<open>An entry of \<open>layerConfig\<close>: \<open>{ category, type, optional }\<close>.\<close>

record layer =
  category :: string
  ltype :: string
  optional :: bool

definition layerConfig :: "layer list" where
  "layerConfig =
     [\<lparr>category = ''background'', ltype = ''background'', optional = False\<rparr>,
      \<lparr>category = ''head'', ltype = ''base'', optional = False\<rparr>,
      \<lparr>category = ''eyes'', ltype = ''feature'', optional = False\<rparr>,
      \<lparr>category = ''clothing'', ltype = ''outfit'', optional = False\<rparr>,
      \<lparr>category = ''neck'', ltype = ''accessory'', optional = False\<rparr>,
      \<lparr>category = ''hats'', ltype = ''accessory'', optional = False\<rparr>,
      \<lparr>category = ''binky'', ltype = ''accessory'', optional = True\<rparr>,
      \<lparr>category = ''special'', ltype = ''special'', optional = True\<rparr>]"

text \<open>The answer of the storage listing, \<open>{ data, error }\<close>; \<open>data\<close> holds file names.\<close>

record list_response =
  data :: "string list option"
  error :: "string option"

datatype file_kind = svg | bitmap

text \<open>A candidate after filtering: \<open>{ url, type, name }\<close>.\<close>

record component_file =
  f_url :: string
  f_type :: file_kind
  f_name :: string

text \<open>The selected component: \<open>{ url, name, category, type }\<close>.\<close>

record component_info =
  c_url :: string
  c_name :: string
  c_category :: string
  c_type :: string

text \<open>
  What a function can throw: the storage's own error, the two errors of a required
  layer without components, a \<open>TypeError\<close> (a property read of \<open>undefined\<close>), a failed
  file operation, and the failure of \<open>generateNFT\<close> to find the primary image.
\<close>

datatype gen_error =
    StorageError string
  | NoComponentsFound string
  | NoImageFilesFound string
  | TypeError
  | FileError string
  | ImageNotCreated string

record image =
  img_src :: string
  img_width :: real
  img_height :: real

text \<open>
  The drawing surface is the sequence of operations that are visible on it: clearing
  the whole canvas empties the sequence, filling the whole canvas and drawing an image
  append to it.
\<close>

datatype canvas_op =
    FillRect string
  | FillText string
  | DrawImage image real real real real

type_synonym canvas = "canvas_op list"

record trait =
  trait_type :: string
  trait_value :: string

text \<open>The metadata document and what a file can hold.\<close>

record metadata =
  m_id :: nat
  m_name :: string
  m_description :: string
  m_image2D :: "string option"
  m_pixelated :: "string option"
  m_attributes :: "trait list"

datatype content =
    Png canvas
  | Pixelated nat content
  | Json metadata

text \<open>
  The configuration: canvas size (512 by 512 in the script, \<open>config.width\<close> and
  \<open>config.height\<close> in the class), the layers, the output folder and the debug switches.
\<close>

record config =
  width :: real
  height :: real
  layers :: "layer list"
  outputFolder :: string
  SKIP_PIXELATION :: bool
  SAVE_INTERMEDIATE_LAYERS :: bool

definition default_config :: config where
  "default_config =
     \<lparr>width = 512, height = 512, layers = layerConfig, outputFolder = ''./output/'',
      SKIP_PIXELATION = False, SAVE_INTERMEDIATE_LAYERS = False\<rparr>"

text \<open>
  The collaborators a generation talks to: the component listing, the image loader, the
  canvas (whether a draw throws), the file system (whether a path can be written), the
  pixelation library and the upload.
\<close>

datatype write_outcome = Written | NotWritten | WriteThrows

record environment =
  SUPABASE_URL :: string
  SPECIES :: "string option"
  storage_list :: "string \<Rightarrow> list_response"
  loadImage :: "string \<Rightarrow> image option"
  drawImage_throws :: "image \<Rightarrow> bool"
  writable :: "string \<Rightarrow> bool"
  jimp_read_ok :: "content \<Rightarrow> bool"
  jimp_writeAsync :: "string \<Rightarrow> write_outcome"
  upload_ok :: "string \<Rightarrow> string \<Rightarrow> bool"

text \<open>The mutable state: the shared canvas, the local files and folders, the random source.\<close>

record gen_state =
  canvas_ops :: canvas
  files :: "string \<Rightarrow> content option"
  folders :: "string set"
  rands :: rng

section \<open>Component selection\<close>

definition is_image_name :: "string \<Rightarrow> bool" where
  "is_image_name n =
     (endsWith (toLowerCase n) ''.png'' \<or> endsWith (toLowerCase n) ''.svg'' \<or>
      endsWith (toLowerCase n) ''.jpg'' \<or> endsWith (toLowerCase n) ''.jpeg'')"

definition to_component_file :: "environment \<Rightarrow> string \<Rightarrow> string \<Rightarrow> component_file" where
  "to_component_file env fullPath n =
     \<lparr>f_url = SUPABASE_URL env @ ''/storage/v1/object/public/space-babiez/'' @ fullPath @ ''/'' @ n,
      f_type = (if toLowerCase (extname n) = ''.svg'' then svg else bitmap),
      f_name = n\<rparr>"

definition filter_files :: "environment \<Rightarrow> string \<Rightarrow> string list \<Rightarrow> component_file list" where
  "filter_files env fullPath d = map (to_component_file env fullPath) (filter is_image_name d)"

text \<open>
  The choice among the filtered files: for \<open>base\<close> and \<open>feature\<close> layers with an SVG
  among them, a random SVG; otherwise a random file of any kind.
\<close>

definition select_file :: "string \<Rightarrow> component_file list \<Rightarrow> real \<Rightarrow> component_file option" where
  "select_file t fs r =
     (if (t = ''base'' \<or> t = ''feature'') \<and> (\<exists>f \<in> set fs. f_type f = svg)
      then (let svgFiles = filter (\<lambda>f. f_type f = svg) fs
            in at_index svgFiles (random_index r (length svgFiles)))
      else at_index fs (random_index r (length fs)))"

definition getRandomComponent ::
  "environment \<Rightarrow> layer \<Rightarrow> string \<Rightarrow> rng \<Rightarrow> (gen_error + component_info option) \<times> rng" where
  "getRandomComponent env layerInfo species g =
     (let fullPath = species @ ''/'' @ category layerInfo;
          resp = storage_list env fullPath
      in case error resp of
           Some e \<Rightarrow> (Inl (StorageError e), g)
         | None \<Rightarrow>
             (case data resp of
                None \<Rightarrow>
                  (if optional layerInfo then (Inr None, g)
                   else (Inl (NoComponentsFound fullPath), g))
              | Some d \<Rightarrow>
                  if d = [] then
                    (if optional layerInfo then (Inr None, g)
                     else (Inl (NoComponentsFound fullPath), g))
                  else
                    (let fs = filter_files env fullPath d
                     in if fs = [] then
                          (if optional layerInfo then (Inr None, g)
                           else (Inl (NoImageFilesFound fullPath), g))
                        else
                          (let (r, g') = next_random g
                           in case select_file (ltype layerInfo) fs r of
                                None \<Rightarrow> (Inl TypeError, g')
                              | Some selectedFile \<Rightarrow>
                                  (Inr (Some \<lparr>c_url = f_url selectedFile,
                                               c_name = f_name selectedFile,
                                               c_category = category layerInfo,
                                               c_type = ltype layerInfo\<rparr>), g')))))"

section \<open>Layer placement and drawing\<close>

record rect =
  drawX :: real
  drawY :: real
  drawWidth :: real
  drawHeight :: real

text \<open>The positioning block of \<open>drawLayer\<close>: the destination rectangle of a loaded image.\<close>

definition drawLayer_rect :: "config \<Rightarrow> string \<Rightarrow> string \<Rightarrow> image \<Rightarrow> rect" where
  "drawLayer_rect cfg t cat img =
     (if t = ''background'' then
        \<lparr>drawX = 0, drawY = 0, drawWidth = width cfg, drawHeight = height cfg\<rparr>
      else if t = ''base'' then
        (let scale = min (width cfg / img_width img) (height cfg / img_height img);
             w = img_width img * scale;
             h = img_height img * scale
         in \<lparr>drawX = (width cfg - w) / 2, drawY = (height cfg - h) * 0.4,
             drawWidth = w, drawHeight = h\<rparr>)
      else if t = ''feature'' then
        (let scale = min (width cfg / img_width img * 0.8) (height cfg / img_height img * 0.5);
             w = img_width img * scale;
             h = img_height img * scale
         in \<lparr>drawX = (width cfg - w) / 2, drawY = height cfg * 0.3,
             drawWidth = w, drawHeight = h\<rparr>)
      else if t = ''outfit'' then
        (let heightScale = min (width cfg / img_width img * 0.9) (height cfg / img_height img * 0.9);
             widthScale = heightScale * 1.15;
             w = img_width img * widthScale;
             h = img_height img * heightScale
         in \<lparr>drawX = (width cfg - w) / 2, drawY = height cfg * 0.1,
             drawWidth = w, drawHeight = h\<rparr>)
      else
        (let scale = min (width cfg / img_width img * 0.7) (height cfg / img_height img * 0.5);
             w = img_width img * scale;
             h = img_height img * scale
         in \<lparr>drawX = (width cfg - w) / 2,
             drawY = (if cat = ''hats'' then height cfg * 0.05
                      else if cat = ''neck'' then height cfg * 0.69
                      else if cat = ''binky'' then height cfg * 0.4
                      else height cfg * 0.2),
             drawWidth = w, drawHeight = h\<rparr>))"

text \<open>
  \<open>drawLayer\<close>: false without a URL; a background whose image cannot be loaded or drawn
  is replaced by a white fill and reported as drawn; any other layer whose image cannot
  be loaded or drawn is reported as not drawn.
\<close>

definition drawLayer :: "config \<Rightarrow> environment \<Rightarrow> component_info \<Rightarrow> canvas \<Rightarrow> bool \<times> canvas" where
  "drawLayer cfg env imageInfo cv =
     (if c_url imageInfo = [] then (False, cv)
      else case loadImage env (c_url imageInfo) of
             None \<Rightarrow>
               (if c_type imageInfo = ''background'' then (True, cv @ [FillRect ''#FFFFFF''])
                else (False, cv))
           | Some img \<Rightarrow>
               (let r = drawLayer_rect cfg (c_type imageInfo) (c_category imageInfo) img
                in if drawImage_throws env img then
                     (if c_type imageInfo = ''background'' then (True, cv @ [FillRect ''#FFFFFF''])
                      else (False, cv))
                   else
                     (True, cv @ [DrawImage img (drawX r) (drawY r) (drawWidth r) (drawHeight r)])))"

section \<open>The file system\<close>

text \<open>
  A write succeeds exactly when the environment lets the path be written (\<open>writable\<close>
  stands for every reason a write can fail: permissions, a missing folder, a full
  disk); a copy also needs its source to exist.
\<close>

definition existsSync :: "gen_state \<Rightarrow> string \<Rightarrow> bool" where
  "existsSync st p = (files st p \<noteq> None)"

definition writeFileSync :: "environment \<Rightarrow> string \<Rightarrow> content \<Rightarrow> gen_state \<Rightarrow> gen_error + gen_state" where
  "writeFileSync env p c st =
     (if writable env p then Inr (st\<lparr>files := (files st)(p := Some c)\<rparr>) else Inl (FileError p))"

definition copyFileSync :: "environment \<Rightarrow> string \<Rightarrow> string \<Rightarrow> gen_state \<Rightarrow> gen_error + gen_state" where
  "copyFileSync env src dst st =
     (case files st src of
        None \<Rightarrow> Inl (FileError src)
      | Some c \<Rightarrow> writeFileSync env dst c st)"

definition mkdirSync :: "environment \<Rightarrow> string \<Rightarrow> gen_state \<Rightarrow> gen_error + gen_state" where
  "mkdirSync env p st =
     (if writable env p then Inr (st\<lparr>folders := insert p (folders st)\<rparr>) else Inl (FileError p))"

section \<open>The compositor\<close>

definition availableSpecies :: "string list" where
  "availableSpecies = [''indigo'', ''green'']"

definition getSpeciesToGenerate :: "environment \<Rightarrow> rng \<Rightarrow> string \<times> rng" where
  "getSpeciesToGenerate env g =
     (let speciesEnv = map_option toLowerCase (SPECIES env)
      in if speciesEnv = Some ''random'' then
           (let (r, g') = next_random g
            in (case at_index availableSpecies (random_index r (length availableSpecies)) of
                  None \<Rightarrow> ''undefined''
                | Some s \<Rightarrow> s, g'))
         else (case speciesEnv of
                 None \<Rightarrow> (''indigo'', g)
               | Some s \<Rightarrow> if s \<in> set availableSpecies then (s, g) else (''indigo'', g)))"

text \<open>\<open>fileName.substring(0, fileName.lastIndexOf('.')) || fileName\<close>\<close>

definition fileNameWithoutExt :: "string \<Rightarrow> string" where
  "fileNameWithoutExt fileName =
     (let s = substring0 fileName (lastIndexOf fileName (CHR ''.''))
      in if s = [] then fileName else s)"

text \<open>The variables of the compositing loop, with the state they run in.\<close>

record composite =
  attributes :: "trait list"
  backgroundDrawn :: bool
  drawnCategories :: "string set"
  state :: gen_state

text \<open>
  One turn of the loop over the layers. Whatever is thrown inside the turn (by the
  selection, or by saving the intermediate image) is caught by the turn's own handler
  and only logged.
\<close>

definition process_layer ::
  "config \<Rightarrow> environment \<Rightarrow> string \<Rightarrow> nat \<Rightarrow> nat \<Rightarrow> layer \<Rightarrow> composite \<Rightarrow> composite" where
  "process_layer cfg env species ident layerIndex layerInfo s =
     (if category layerInfo \<in> drawnCategories s then s
      else case getRandomComponent env layerInfo species (rands (state s)) of
             (Inl e, g) \<Rightarrow> s\<lparr>state := (state s)\<lparr>rands := g\<rparr>\<rparr>
           | (Inr None, g) \<Rightarrow> s\<lparr>state := (state s)\<lparr>rands := g\<rparr>\<rparr>
           | (Inr (Some componentInfo), g) \<Rightarrow>
               (let (layerDrawn, cv) = drawLayer cfg env componentInfo (canvas_ops (state s));
                    st1 = (state s)\<lparr>rands := g, canvas_ops := cv\<rparr>;
                    bg = (if category layerInfo = ''background'' then layerDrawn
                          else backgroundDrawn s)
                in if layerDrawn then
                     (let attrs = attributes s @
                            [\<lparr>trait_type = category layerInfo,
                              trait_value = fileNameWithoutExt (c_name componentInfo)\<rparr>];
                          layerProgressPath = outputFolder cfg @ ''layer_'' @ show_nat (layerIndex + 1)
                            @ ''_'' @ category layerInfo @ ''_'' @ show_nat ident @ ''.png'';
                          st2 = (if SAVE_INTERMEDIATE_LAYERS cfg then
                                   (case writeFileSync env layerProgressPath (Png cv) st1 of
                                      Inl e \<Rightarrow> st1
                                    | Inr st' \<Rightarrow> st')
                                 else st1)
                      in \<lparr>attributes = attrs, backgroundDrawn = bg,
                          drawnCategories = insert (category layerInfo) (drawnCategories s),
                          state = st2\<rparr>)
                   else s\<lparr>backgroundDrawn := bg, state := st1\<rparr>))"

fun process_layers ::
  "config \<Rightarrow> environment \<Rightarrow> string \<Rightarrow> nat \<Rightarrow> nat \<Rightarrow> layer list \<Rightarrow> composite \<Rightarrow> composite" where
  "process_layers cfg env species ident layerIndex [] s = s"
| "process_layers cfg env species ident layerIndex (layerInfo # rest) s =
     process_layers cfg env species ident (layerIndex + 1) rest
       (process_layer cfg env species ident layerIndex layerInfo s)"

text \<open>What \<open>generate2DImage\<close> returns: \<open>{ nftPath, attributes, species }\<close>.\<close>

record image_result =
  r_nftPath :: string
  r_attributes :: "trait list"
  r_species :: string

text \<open>The body of the \<open>try\<close> block of \<open>generate2DImage\<close>, with the state it leaves behind.\<close>

definition generate2DImage_body ::
  "config \<Rightarrow> environment \<Rightarrow> nat \<Rightarrow> gen_state \<Rightarrow> (gen_error + image_result) \<times> gen_state" where
  "generate2DImage_body cfg env ident st0 =
     (case (if outputFolder cfg \<in> folders st0 then Inr st0
            else mkdirSync env (outputFolder cfg) st0) of
        Inl e \<Rightarrow> (Inl e, st0)
      | Inr st1 \<Rightarrow>
          (let (species, g) = getSpeciesToGenerate env (rands st1);
               st2 = st1\<lparr>rands := g, canvas_ops := [FillRect ''#FFFFFF'']\<rparr>;
               s = process_layers cfg env species ident 0 (layers cfg)
                     \<lparr>attributes = [\<lparr>trait_type = ''species'', trait_value = species\<rparr>],
                      backgroundDrawn = False, drawnCategories = {}, state = st2\<rparr>;
               nftPath = outputFolder cfg @ species @ ''_nft_'' @ show_nat ident @ ''.png''
           in case writeFileSync env nftPath (Png (canvas_ops (state s))) (state s) of
                Inr st3 \<Rightarrow>
                  (Inr \<lparr>r_nftPath = nftPath, r_attributes = attributes s, r_species = species\<rparr>, st3)
              | Inl saveError \<Rightarrow>
                  (let altPath = outputFolder cfg @ ''fallback_'' @ species @ ''_'' @ show_nat ident @ ''.png''
                   in case writeFileSync env altPath (Png (canvas_ops (state s))) (state s) of
                        Inr st3 \<Rightarrow>
                          (Inr \<lparr>r_nftPath = altPath, r_attributes = attributes s, r_species = species\<rparr>, st3)
                      | Inl e \<Rightarrow> (Inl e, state s))))"

definition error_canvas :: "nat \<Rightarrow> canvas" where
  "error_canvas ident = [FillRect ''#FF00FF'', FillText (''Error generating NFT #'' @ show_nat ident)]"

definition error_attributes :: "trait list" where
  "error_attributes = [\<lparr>trait_type = ''error'', trait_value = ''generation_failed''\<rparr>]"

definition generate2DImage ::
  "config \<Rightarrow> environment \<Rightarrow> nat \<Rightarrow> gen_state \<Rightarrow> (gen_error + image_result) \<times> gen_state" where
  "generate2DImage cfg env ident st0 =
     (case generate2DImage_body cfg env ident st0 of
        (Inr r, st) \<Rightarrow> (Inr r, st)
      | (Inl e, st) \<Rightarrow>
          (let st1 = st\<lparr>canvas_ops := error_canvas ident\<rparr>;
               emergencyPath = outputFolder cfg @ ''emergency_'' @ show_nat ident @ ''.png''
           in case writeFileSync env emergencyPath (Png (error_canvas ident)) st1 of
                Inl e' \<Rightarrow> (Inl e', st1)
              | Inr st2 \<Rightarrow>
                  (Inr \<lparr>r_nftPath = emergencyPath, r_attributes = error_attributes,
                        r_species = ''error''\<rparr>, st2)))"

section \<open>Pixelation, upload and the assembler\<close>

text \<open>
  \<open>pixelateImage\<close> never throws: it answers the output path, or \<open>null\<close> (here \<open>None\<close>)
  when the input is missing or the fallback copy fails. The library reads the buffer
  (\<open>jimp_read_ok\<close>), pixelates with block size 8 and writes the result; the source also
  reckons with a write that returns without leaving a file (\<open>NotWritten\<close>).
\<close>

definition pixelateImage ::
  "config \<Rightarrow> environment \<Rightarrow> string \<Rightarrow> string \<Rightarrow> gen_state \<Rightarrow> string option \<times> gen_state" where
  "pixelateImage cfg env inputPath outputPath st =
     (case files st inputPath of
        None \<Rightarrow> (None, st)
      | Some buffer \<Rightarrow>
          if SKIP_PIXELATION cfg then
            (case copyFileSync env inputPath outputPath st of
               Inr st' \<Rightarrow> (Some outputPath, st')
             | Inl copyError \<Rightarrow> (None, st))
          else if jimp_read_ok env buffer \<and> jimp_writeAsync env outputPath = Written then
            (Some outputPath, st\<lparr>files := (files st)(outputPath := Some (Pixelated 8 buffer))\<rparr>)
          else if jimp_read_ok env buffer \<and> jimp_writeAsync env outputPath = NotWritten then
            (Some outputPath, st)
          else
            (case copyFileSync env inputPath outputPath st of
               Inr st' \<Rightarrow> (Some outputPath, st')
             | Inl copyError \<Rightarrow> (None, st)))"

text \<open>
  \<open>uploadToSupabase\<close> answers the public URL, or \<open>null\<close> when the file is missing or the
  upload fails or throws. The folder check before the upload has no effect on the
  answer and is left out.
\<close>

definition uploadToSupabase :: "environment \<Rightarrow> gen_state \<Rightarrow> string \<Rightarrow> string \<Rightarrow> nat \<Rightarrow> string option" where
  "uploadToSupabase env st filePath bucket nftId =
     (if \<not> existsSync st filePath then None
      else (let fileName = basename filePath;
                species = (if startsWith fileName ''green_'' then ''green''
                           else if startsWith fileName ''indigo_'' then ''indigo''
                           else ''unknown'');
                folderPath = ''nfts/'' @ species @ ''/'' @ show_nat nftId
            in if upload_ok env bucket (folderPath @ ''/'' @ fileName)
               then Some (SUPABASE_URL env @ ''/storage/v1/object/public/'' @ bucket @ ''/''
                            @ folderPath @ ''/'' @ fileName)
               else None))"

definition toUpperCase_char :: "char \<Rightarrow> char" where
  "toUpperCase_char c =
     (case map_of (zip ''abcdefghijklmnopqrstuvwxyz'' ''ABCDEFGHIJKLMNOPQRSTUVWXYZ'') c of
        Some u \<Rightarrow> u
      | None \<Rightarrow> c)"

text \<open>\<open>species.charAt(0).toUpperCase() + species.slice(1)\<close>\<close>

definition capitalize :: "string \<Rightarrow> string" where
  "capitalize s = (case s of [] \<Rightarrow> [] | c # cs \<Rightarrow> toUpperCase_char c # cs)"

text \<open>
  Step 2 of \<open>generateNFT\<close>: the pixelated version. When \<open>pixelateImage\<close> answers
  \<open>null\<close> or a path without a file, the original is copied to the pixelated path; a
  copy that throws inside the \<open>try\<close> is caught by a handler that copies again, and
  what that second copy throws leaves \<open>generateNFT\<close>.
\<close>

definition generateNFT_copy_original ::
  "environment \<Rightarrow> string \<Rightarrow> string \<Rightarrow> gen_state \<Rightarrow> (gen_error + string) \<times> gen_state" where
  "generateNFT_copy_original env nftPath pixelatedPath st =
     (case copyFileSync env nftPath pixelatedPath st of
        Inr st' \<Rightarrow> (Inr pixelatedPath, st')
      | Inl pixelateError \<Rightarrow>
          (case copyFileSync env nftPath pixelatedPath st of
             Inr st' \<Rightarrow> (Inr pixelatedPath, st')
           | Inl e \<Rightarrow> (Inl e, st)))"

definition generateNFT_pixelate ::
  "config \<Rightarrow> environment \<Rightarrow> string \<Rightarrow> string \<Rightarrow> gen_state \<Rightarrow> (gen_error + string) \<times> gen_state" where
  "generateNFT_pixelate cfg env nftPath pixelatedPath st =
     (case pixelateImage cfg env nftPath pixelatedPath st of
        (None, st1) \<Rightarrow> generateNFT_copy_original env nftPath pixelatedPath st1
      | (Some pixelatedImagePath, st1) \<Rightarrow>
          if \<not> existsSync st1 pixelatedImagePath
          then generateNFT_copy_original env nftPath pixelatedPath st1
          else (Inr pixelatedImagePath, st1))"

text \<open>What \<open>generateNFT\<close> returns: \<open>{ id, species, nftUrl, pixelatedUrl, metadata }\<close>.\<close>

record nft_result =
  n_id :: nat
  n_species :: string
  nftUrl :: "string option"
  pixelatedUrl :: "string option"
  n_metadata :: metadata

definition generateNFT ::
  "config \<Rightarrow> environment \<Rightarrow> nat \<Rightarrow> gen_state \<Rightarrow> (gen_error + nft_result) \<times> gen_state" where
  "generateNFT cfg env ident st0 =
     (case generate2DImage cfg env ident (st0\<lparr>canvas_ops := []\<rparr>) of
        (Inl e, st1) \<Rightarrow> (Inl e, st1)
      | (Inr r, st1) \<Rightarrow>
          if \<not> existsSync st1 (r_nftPath r) then (Inl (ImageNotCreated (r_nftPath r)), st1)
          else
            (case generateNFT_pixelate cfg env (r_nftPath r)
                    (outputFolder cfg @ r_species r @ ''_nft_'' @ show_nat ident @ ''_pixelated.png'') st1 of
               (Inl e, st2) \<Rightarrow> (Inl e, st2)
             | (Inr pixelatedImagePath, st2) \<Rightarrow>
                 (let url2D = uploadToSupabase env st2 (r_nftPath r) ''nft-storage'' ident;
                      urlPix = uploadToSupabase env st2 pixelatedImagePath ''nft-storage'' ident;
                      md = \<lparr>m_id = ident,
                            m_name = capitalize (r_species r) @ '' Babiez #'' @ show_nat ident,
                            m_description = ''Generated '' @ r_species r
                               @ '' Space Babiez NFT with 2D and pixel art'',
                            m_image2D = url2D, m_pixelated = urlPix,
                            m_attributes = r_attributes r\<rparr>
                  in case writeFileSync env
                            (outputFolder cfg @ r_species r @ ''_nft_'' @ show_nat ident @ ''.json'')
                            (Json md) st2 of
                       Inl e \<Rightarrow> (Inl e, st2)
                     | Inr st3 \<Rightarrow>
                         (Inr \<lparr>n_id = ident, n_species = r_species r, nftUrl = url2D,
                               pixelatedUrl = urlPix, n_metadata = md\<rparr>, st3))))"

text \<open>
  The batch: identifiers 1 to \<open>count\<close> in turn; what \<open>generateNFT\<close> throws is caught and
  logged, and the loop goes on with the next identifier.
\<close>

function generateMultipleNFTs_loop ::
  "config \<Rightarrow> environment \<Rightarrow> nat \<Rightarrow> nat \<Rightarrow> nft_result list \<Rightarrow> gen_state \<Rightarrow> nft_result list \<times> gen_state" where
  "generateMultipleNFTs_loop cfg env count i results st =
     (if i \<le> count then
        (case generateNFT cfg env i st of
           (Inr result, st') \<Rightarrow> generateMultipleNFTs_loop cfg env count (i + 1) (results @ [result]) st'
         | (Inl e, st') \<Rightarrow> generateMultipleNFTs_loop cfg env count (i + 1) results st')
      else (results, st))"
  by pat_completeness auto
termination
  by (relation "measure (\<lambda>(cfg, env, count, i, results, st). Suc count - i)") auto

declare generateMultipleNFTs_loop.simps [simp del]

definition generateMultipleNFTs :: "config \<Rightarrow> environment \<Rightarrow> nat \<Rightarrow> gen_state \<Rightarrow> nft_result list \<times> gen_state" where
  "generateMultipleNFTs cfg env count st = generateMultipleNFTs_loop cfg env count 1 [] st"

section \<open>Sample inputs\<close>

text \<open>
  A small bucket for the species \<open>indigo\<close> (a background, a head as bitmap and as SVG,
  three eyes, nothing else), an environment in which every collaborator works, and a
  starting state whose random source always yields one half.
\<close>

definition sample_listing :: "string \<Rightarrow> list_response" where
  "sample_listing p =
     (if p = ''indigo/background'' then \<lparr>data = Some [''stars.png''], error = None\<rparr>
      else if p = ''indigo/head'' then
        \<lparr>data = Some [''round.png'', ''round.svg'', ''notes.txt''], error = None\<rparr>
      else if p = ''indigo/eyes'' then
        \<lparr>data = Some [''blue.svg'', ''green.png'', ''Wide.SVG''], error = None\<rparr>
      else \<lparr>data = Some [], error = None\<rparr>)"

definition sample_env :: environment where
  "sample_env =
     \<lparr>SUPABASE_URL = ''https://sb'', SPECIES = None, storage_list = sample_listing,
      loadImage = (\<lambda>u. Some \<lparr>img_src = u, img_width = 256, img_height = 512\<rparr>),
      drawImage_throws = (\<lambda>i. False), writable = (\<lambda>p. True),
      jimp_read_ok = (\<lambda>c. True), jimp_writeAsync = (\<lambda>p. Written), upload_ok = (\<lambda>b k. True)\<rparr>"

definition sample_state :: gen_state where
  "sample_state =
     \<lparr>canvas_ops = [], files = (\<lambda>p. None), folders = {''./output/''}, rands = (\<lambda>n. 1 / 2)\<rparr>"

definition sample_image :: image where
  "sample_image = \<lparr>img_src = ''https://sb/a.png'', img_width = 256, img_height = 512\<rparr>"

text \<open>What the default layers draw and record in the sample bucket.\<close>

definition sample_canvas :: canvas where
  "sample_canvas =
     [FillRect ''#FFFFFF'',
      DrawImage \<lparr>img_src = ''https://sb/storage/v1/object/public/space-babiez/indigo/background/stars.png'',
                 img_width = 256, img_height = 512\<rparr> 0 0 512 512,
      DrawImage \<lparr>img_src = ''https://sb/storage/v1/object/public/space-babiez/indigo/head/round.svg'',
                 img_width = 256, img_height = 512\<rparr> 128 0 256 512,
      DrawImage \<lparr>img_src = ''https://sb/storage/v1/object/public/space-babiez/indigo/eyes/Wide.SVG'',
                 img_width = 256, img_height = 512\<rparr> 192 153.6 128 256]"

definition sample_traits :: "trait list" where
  "sample_traits =
     [\<lparr>trait_type = ''species'', trait_value = ''indigo''\<rparr>,
      \<lparr>trait_type = ''background'', trait_value = ''stars''\<rparr>,
      \<lparr>trait_type = ''head'', trait_value = ''round''\<rparr>,
      \<lparr>trait_type = ''eyes'', trait_value = ''Wide''\<rparr>]"

text \<open>
  Variations: a configuration whose only layer has the category \<open>species\<close>, a bucket
  with one file in every folder, a bucket without files, and an image loader that
  always fails.
\<close>

definition duplicate_species_config :: config where
  "duplicate_species_config =
     default_config\<lparr>layers := [\<lparr>category = ''species'', ltype = ''background'', optional = False\<rparr>]\<rparr>"

definition nebula_env :: environment where
  "nebula_env = sample_env\<lparr>storage_list := (\<lambda>p. \<lparr>data = Some [''nebula.png''], error = None\<rparr>)\<rparr>"

definition empty_bucket_env :: environment where
  "empty_bucket_env = sample_env\<lparr>storage_list := (\<lambda>p. \<lparr>data = Some [], error = None\<rparr>)\<rparr>"

definition no_decode_env :: environment where
  "no_decode_env = sample_env\<lparr>loadImage := (\<lambda>u. None)\<rparr>"

text \<open>
  An environment whose pixelation library cannot read any image, and one in which the
  pixelated file of identifier 1 cannot be written, neither by the library nor by a
  copy.
\<close>

definition broken_jimp_env :: environment where
  "broken_jimp_env = sample_env\<lparr>jimp_read_ok := (\<lambda>c. False)\<rparr>"

definition readonly_pixelated_env :: environment where
  "readonly_pixelated_env =
     sample_env\<lparr>jimp_writeAsync := (\<lambda>p. WriteThrows),
                writable := (\<lambda>p. p \<noteq> ''./output/indigo_nft_1_pixelated.png'')\<rparr>"

text \<open>
  An environment in which neither the image of identifier 1 nor its fallback can be
  saved, and one in which nothing can be written.
\<close>

definition unsavable_first_env :: environment where
  "unsavable_first_env =
     sample_env\<lparr>writable := (\<lambda>p. p \<noteq> ''./output/indigo_nft_1.png'' \<and>
                                   p \<noteq> ''./output/fallback_indigo_1.png'')\<rparr>"

definition readonly_env :: environment where
  "readonly_env = sample_env\<lparr>writable := (\<lambda>p. False)\<rparr>"

text \<open>An environment in which no image of identifier 1 can be written, not even the emergency image.\<close>

definition unwritable_first_env :: environment where
  "unwritable_first_env =
     sample_env\<lparr>writable := (\<lambda>p. p \<noteq> ''./output/indigo_nft_1.png'' \<and>
                                   p \<noteq> ''./output/fallback_indigo_1.png'' \<and>
                                   p \<noteq> ''./output/emergency_1.png'')\<rparr>"

section \<open>Auxiliary facts\<close>

lemma random_index_bounds:
  assumes "0 \<le> r" "r < 1" "0 < n"
  shows "0 \<le> random_index r n \<and> random_index r n < int n"
proof -
  have a: "0 \<le> r * real n" using assms by simp
  have b: "r * real n < real n" using assms by simp
  have "\<lfloor>r * real n\<rfloor> < int n" using b by (simp add: floor_less_iff)
  moreover have "0 \<le> \<lfloor>r * real n\<rfloor>" using a by simp
  ultimately show ?thesis by (simp add: random_index_def)
qed

lemma random_index_interval:
  assumes "0 < n"
  shows "(random_index r n = int i) = (real i / real n \<le> r \<and> r < (real i + 1) / real n)"
proof -
  have "(\<lfloor>r * real n\<rfloor> = int i) = (real_of_int (int i) \<le> r * real n \<and> r * real n < real_of_int (int i) + 1)"
    by (rule floor_eq_iff)
  also have "\<dots> = (real i / real n \<le> r \<and> r < (real i + 1) / real n)"
    using assms by (simp add: pos_divide_le_eq pos_less_divide_eq)
  finally show ?thesis by (simp add: random_index_def)
qed

lemma at_index_random:
  assumes "xs \<noteq> []" "0 \<le> r" "r < 1"
  shows "at_index xs (random_index r (length xs)) = Some (xs ! nat (random_index r (length xs)))"
    and "nat (random_index r (length xs)) < length xs"
  using random_index_bounds [of r "length xs"] assms by (auto simp: at_index_def)

lemma at_index_mem: "at_index xs i = Some x \<Longrightarrow> x \<in> set xs"
  by (auto simp: at_index_def split: if_splits)

lemma select_file_mem: "select_file t fs r = Some f \<Longrightarrow> f \<in> set fs"
  by (auto simp: select_file_def Let_def dest!: at_index_mem split: if_splits)

lemma filter_files_url: "f \<in> set (filter_files env p d) \<Longrightarrow> f_url f \<noteq> []"
  by (auto simp: filter_files_def to_component_file_def)

lemma getRandomComponent_selects:
  assumes "error (storage_list env (species @ ''/'' @ category l)) = None"
    and "data (storage_list env (species @ ''/'' @ category l)) = Some d"
    and "filter_files env (species @ ''/'' @ category l) d \<noteq> []"
    and "select_file (ltype l) (filter_files env (species @ ''/'' @ category l) d) (g 0) = Some f"
  shows "getRandomComponent env l species g =
           (Inr (Some \<lparr>c_url = f_url f, c_name = f_name f, c_category = category l, c_type = ltype l\<rparr>),
            \<lambda>n. g (Suc n))"
proof -
  have "d \<noteq> []" using assms(3) by (auto simp: filter_files_def)
  then show ?thesis
    using assms by (simp add: getRandomComponent_def Let_def next_random_def)
qed

lemma getRandomComponent_Some_file:
  assumes "getRandomComponent env l sp g = (Inr (Some ci), g')"
  shows "\<exists>d f. data (storage_list env (sp @ ''/'' @ category l)) = Some d \<and>
           error (storage_list env (sp @ ''/'' @ category l)) = None \<and>
           select_file (ltype l) (filter_files env (sp @ ''/'' @ category l) d) (g 0) = Some f \<and>
           ci = \<lparr>c_url = f_url f, c_name = f_name f, c_category = category l, c_type = ltype l\<rparr>"
  using assms
  by (simp add: getRandomComponent_def Let_def next_random_def split: option.splits if_splits)

lemma getRandomComponent_Some:
  assumes "getRandomComponent env l sp g = (Inr (Some ci), g')"
  shows "c_url ci \<noteq> [] \<and> c_category ci = category l \<and> c_type ci = ltype l"
proof -
  obtain d f where f: "select_file (ltype l) (filter_files env (sp @ ''/'' @ category l) d) (g 0) = Some f"
    and ci: "ci = \<lparr>c_url = f_url f, c_name = f_name f, c_category = category l, c_type = ltype l\<rparr>"
    using getRandomComponent_Some_file [OF assms] by blast
  have "f_url f \<noteq> []" using select_file_mem [OF f] by (rule filter_files_url)
  then show ?thesis using ci by simp
qed

lemma process_layer_skip:
  "category l \<in> drawnCategories s \<Longrightarrow> process_layer cfg env sp ident i l s = s"
  by (simp add: process_layer_def)

lemma process_layer_caught:
  assumes "category l \<notin> drawnCategories s"
    and "fst (getRandomComponent env l sp (rands (state s))) = Inl e"
  shows "process_layer cfg env sp ident i l s =
           s\<lparr>state := (state s)\<lparr>rands := snd (getRandomComponent env l sp (rands (state s)))\<rparr>\<rparr>"
  using assms by (cases "getRandomComponent env l sp (rands (state s))") (simp add: process_layer_def)

lemma process_layer_none:
  assumes "category l \<notin> drawnCategories s"
    and "fst (getRandomComponent env l sp (rands (state s))) = Inr None"
  shows "process_layer cfg env sp ident i l s =
           s\<lparr>state := (state s)\<lparr>rands := snd (getRandomComponent env l sp (rands (state s)))\<rparr>\<rparr>"
  using assms by (cases "getRandomComponent env l sp (rands (state s))") (simp add: process_layer_def)

lemma process_layer_not_drawn:
  assumes "category l \<notin> drawnCategories s"
    and "getRandomComponent env l sp (rands (state s)) = (Inr (Some ci), g)"
    and "drawLayer cfg env ci (canvas_ops (state s)) = (False, cv)"
  shows "process_layer cfg env sp ident i l s =
           s\<lparr>backgroundDrawn := (if category l = ''background'' then False else backgroundDrawn s),
             state := (state s)\<lparr>rands := g, canvas_ops := cv\<rparr>\<rparr>"
  using assms by (simp add: process_layer_def)

lemma process_layer_drawn:
  assumes "category l \<notin> drawnCategories s"
    and "getRandomComponent env l sp (rands (state s)) = (Inr (Some ci), g)"
    and "drawLayer cfg env ci (canvas_ops (state s)) = (True, cv)"
  shows "attributes (process_layer cfg env sp ident i l s) =
           attributes s @ [\<lparr>trait_type = category l, trait_value = fileNameWithoutExt (c_name ci)\<rparr>]"
    and "drawnCategories (process_layer cfg env sp ident i l s) = insert (category l) (drawnCategories s)"
    and "canvas_ops (state (process_layer cfg env sp ident i l s)) = cv"
  using assms by (simp_all add: process_layer_def Let_def writeFileSync_def)

lemma process_layer_cases:
  "(attributes (process_layer cfg env sp ident i l s) = attributes s \<and>
    drawnCategories (process_layer cfg env sp ident i l s) = drawnCategories s) \<or>
   (category l \<notin> drawnCategories s \<and>
    (\<exists>v. attributes (process_layer cfg env sp ident i l s) =
           attributes s @ [\<lparr>trait_type = category l, trait_value = v\<rparr>]) \<and>
    drawnCategories (process_layer cfg env sp ident i l s) = insert (category l) (drawnCategories s))"
proof (cases "category l \<in> drawnCategories s")
  case True
  then show ?thesis by (simp add: process_layer_skip)
next
  case False
  obtain res g where gr: "getRandomComponent env l sp (rands (state s)) = (res, g)"
    by (cases "getRandomComponent env l sp (rands (state s))")
  show ?thesis
  proof (cases res)
    case (Inl e)
    then show ?thesis using False gr process_layer_caught [of l s env sp e cfg ident i] by simp
  next
    case (Inr oc)
    show ?thesis
    proof (cases oc)
      case None
      then show ?thesis using False gr Inr process_layer_none [of l s env sp cfg ident i] by simp
    next
      case (Some ci)
      obtain b cv where dl: "drawLayer cfg env ci (canvas_ops (state s)) = (b, cv)"
        by (cases "drawLayer cfg env ci (canvas_ops (state s))")
      show ?thesis
      proof (cases b)
        case True
        then show ?thesis
          using False gr Inr Some dl process_layer_drawn(1,2) [of l s env sp ci g cfg cv ident i]
          by simp
      next
        case notdrawn: False
        then show ?thesis
          using False gr Inr Some dl process_layer_not_drawn [of l s env sp ci g cfg cv ident i]
          by simp
      qed
    qed
  qed
qed

lemma process_layers_inv:
  assumes "''species'' \<notin> category ` set ls"
    and "distinct (map trait_type (attributes s))"
    and "set (map trait_type (attributes s)) = insert ''species'' (drawnCategories s)"
  shows "distinct (map trait_type (attributes (process_layers cfg env sp ident i ls s))) \<and>
         set (map trait_type (attributes (process_layers cfg env sp ident i ls s))) =
           insert ''species'' (drawnCategories (process_layers cfg env sp ident i ls s)) \<and>
         (\<exists>rest. attributes (process_layers cfg env sp ident i ls s) = attributes s @ rest)"
  using assms
proof (induction ls arbitrary: s i)
  case Nil
  then show ?case by simp
next
  case (Cons l ls)
  let ?s = "process_layer cfg env sp ident i l s"
  have ns: "category l \<noteq> ''species''" and rest: "''species'' \<notin> category ` set ls"
    using Cons.prems(1) by auto
  from process_layer_cases [of cfg env sp ident i l s]
  consider (same) "attributes ?s = attributes s" "drawnCategories ?s = drawnCategories s"
    | (app) v where "category l \<notin> drawnCategories s"
        "attributes ?s = attributes s @ [\<lparr>trait_type = category l, trait_value = v\<rparr>]"
        "drawnCategories ?s = insert (category l) (drawnCategories s)"
    by blast
  then have step: "distinct (map trait_type (attributes ?s)) \<and>
      set (map trait_type (attributes ?s)) = insert ''species'' (drawnCategories ?s) \<and>
      (\<exists>rest. attributes ?s = attributes s @ rest)"
  proof cases
    case same
    then show ?thesis using Cons.prems(2,3) by simp
  next
    case app
    have "category l \<notin> set (map trait_type (attributes s))"
      using Cons.prems(3) app(1) ns by simp
    then show ?thesis using app(2,3) Cons.prems(2,3) by (simp add: insert_commute)
  qed
  from step obtain r1 where r1: "attributes ?s = attributes s @ r1" by blast
  have "distinct (map trait_type (attributes (process_layers cfg env sp ident (i + 1) ls ?s))) \<and>
        set (map trait_type (attributes (process_layers cfg env sp ident (i + 1) ls ?s))) =
          insert ''species'' (drawnCategories (process_layers cfg env sp ident (i + 1) ls ?s)) \<and>
        (\<exists>rest. attributes (process_layers cfg env sp ident (i + 1) ls ?s) = attributes ?s @ rest)"
    using Cons.IH [OF rest, of ?s "i + 1"] step by blast
  then show ?case using r1 by auto
qed

lemma generate2DImage_body_Inr:
  assumes "fst (generate2DImage_body cfg env ident st) = Inr r"
  shows "\<exists>st2. r_attributes r =
            attributes (process_layers cfg env (r_species r) ident 0 (layers cfg)
              \<lparr>attributes = [\<lparr>trait_type = ''species'', trait_value = r_species r\<rparr>],
               backgroundDrawn = False, drawnCategories = {}, state = st2\<rparr>)"
  using assms
  by (auto simp: generate2DImage_body_def Let_def split: sum.splits prod.splits if_splits)

lemma generate2DImage_body_Inl:
  assumes "fst (generate2DImage_body cfg env ident st) = Inl e"
  shows "\<exists>p. e = FileError p"
  using assms
  by (auto simp: generate2DImage_body_def Let_def mkdirSync_def writeFileSync_def
      split: sum.splits prod.splits if_splits)

lemma getRandomComponent_no_candidates:
  assumes "case data (storage_list env (sp @ ''/'' @ category l)) of
             None \<Rightarrow> True
           | Some d \<Rightarrow> filter_files env (sp @ ''/'' @ category l) d = []"
  shows "fst (getRandomComponent env l sp g) \<noteq> Inr (Some ci) \<and> snd (getRandomComponent env l sp g) = g"
  using assms
  by (auto simp: getRandomComponent_def Let_def filter_files_def split: option.splits)

lemma process_layer_no_candidates:
  assumes "case data (storage_list env (sp @ ''/'' @ category l)) of
             None \<Rightarrow> True
           | Some d \<Rightarrow> filter_files env (sp @ ''/'' @ category l) d = []"
  shows "process_layer cfg env sp ident i l s = s"
proof (cases "category l \<in> drawnCategories s")
  case True
  then show ?thesis by (simp add: process_layer_skip)
next
  case False
  obtain res g where gr: "getRandomComponent env l sp (rands (state s)) = (res, g)"
    by (cases "getRandomComponent env l sp (rands (state s))")
  have g: "g = rands (state s)" and ns: "\<And>ci. res \<noteq> Inr (Some ci)"
    using getRandomComponent_no_candidates [OF assms, of "rands (state s)"] gr by auto
  show ?thesis
  proof (cases res)
    case (Inl e)
    then show ?thesis using False gr g process_layer_caught [of l s env sp e cfg ident i] by simp
  next
    case (Inr oc)
    then have "oc = None" using ns by (cases oc) auto
    then show ?thesis using False gr g Inr process_layer_none [of l s env sp cfg ident i] by simp
  qed
qed

lemma process_layers_category_absent:
  assumes "\<forall>l \<in> set ls. category l = c \<longrightarrow>
             (case data (storage_list env (sp @ ''/'' @ category l)) of
                None \<Rightarrow> True
              | Some d \<Rightarrow> filter_files env (sp @ ''/'' @ category l) d = [])"
    and "c \<notin> trait_type ` set (attributes s)"
  shows "c \<notin> trait_type ` set (attributes (process_layers cfg env sp ident i ls s))"
  using assms
proof (induction ls arbitrary: s i)
  case Nil
  then show ?case by simp
next
  case (Cons l ls)
  let ?s = "process_layer cfg env sp ident i l s"
  have "c \<notin> trait_type ` set (attributes ?s)"
  proof (cases "category l = c")
    case True
    then have "?s = s" using Cons.prems(1) process_layer_no_candidates [of env sp l cfg ident i s] by simp
    then show ?thesis using Cons.prems(2) by simp
  next
    case False
    then show ?thesis using process_layer_cases [of cfg env sp ident i l s] Cons.prems(2) by auto
  qed
  then show ?case using Cons.IH [of ?s "i + 1"] Cons.prems(1) by simp
qed

lemmas string_defs = is_image_name_def endsWith_def toLowerCase_def toLowerCase_char_def extname_def

lemma sample_eyes_files:
  "filter_files sample_env ''indigo/eyes'' [''blue.svg'', ''green.png'', ''Wide.SVG''] =
     [\<lparr>f_url = ''https://sb/storage/v1/object/public/space-babiez/indigo/eyes/blue.svg'', f_type = svg, f_name = ''blue.svg''\<rparr>,
      \<lparr>f_url = ''https://sb/storage/v1/object/public/space-babiez/indigo/eyes/green.png'', f_type = bitmap, f_name = ''green.png''\<rparr>,
      \<lparr>f_url = ''https://sb/storage/v1/object/public/space-babiez/indigo/eyes/Wide.SVG'', f_type = svg, f_name = ''Wide.SVG''\<rparr>]"
  by (simp add: filter_files_def to_component_file_def sample_env_def string_defs)

lemma drawLayer_load_failure:
  assumes "c_url ci \<noteq> []" and "loadImage env (c_url ci) = None"
  shows "drawLayer cfg env ci cv =
           (if c_type ci = ''background'' then (True, cv @ [FillRect ''#FFFFFF'']) else (False, cv))"
  using assms by (simp add: drawLayer_def)

lemma generate2DImage_result:
  assumes "generate2DImage cfg env ident st = (Inr r, st1)"
  shows "(r_nftPath r = outputFolder cfg @ r_species r @ ''_nft_'' @ show_nat ident @ ''.png'' \<or>
          r_nftPath r = outputFolder cfg @ ''fallback_'' @ r_species r @ ''_'' @ show_nat ident @ ''.png'' \<or>
          (r_nftPath r = outputFolder cfg @ ''emergency_'' @ show_nat ident @ ''.png'' \<and> r_species r = ''error'')) \<and>
         (\<exists>cv. files st1 (r_nftPath r) = Some (Png cv))"
  using assms
  by (auto simp: generate2DImage_def generate2DImage_body_def Let_def writeFileSync_def
      split: sum.splits prod.splits if_splits)

lemma json_path_distinct:
  assumes "p = outputFolder cfg @ sp @ ''_nft_'' @ n @ ''.png'' \<or>
           p = outputFolder cfg @ ''fallback_'' @ sp @ ''_'' @ n @ ''.png'' \<or>
           (p = outputFolder cfg @ ''emergency_'' @ n @ ''.png'' \<and> sp = ''error'')"
  shows "outputFolder cfg @ sp @ ''_nft_'' @ n @ ''.json'' \<noteq> p"
proof
  assume e: "outputFolder cfg @ sp @ ''_nft_'' @ n @ ''.json'' = p"
  from assms consider
      (a) "p = outputFolder cfg @ sp @ ''_nft_'' @ n @ ''.png''"
    | (b) "p = outputFolder cfg @ ''fallback_'' @ sp @ ''_'' @ n @ ''.png''"
    | (c) "p = outputFolder cfg @ ''emergency_'' @ n @ ''.png''" "sp = ''error''"
    by blast
  then show False
  proof cases
    case a
    then show False using e by simp
  next
    case b
    then have "length (outputFolder cfg @ sp @ ''_nft_'' @ n @ ''.json'') =
        length (outputFolder cfg @ ''fallback_'' @ sp @ ''_'' @ n @ ''.png'')"
      using e by simp
    then show False by simp
  next
    case c
    then show False using e by simp
  qed
qed

lemma pixelate_fallback:
  assumes "files st nftPath = Some c"
    and "\<not> jimp_read_ok env c \<or> jimp_writeAsync env pixelatedPath = WriteThrows \<or>
         (jimp_writeAsync env pixelatedPath = NotWritten \<and> files st pixelatedPath = None)"
    and "writable env pixelatedPath"
  shows "generateNFT_pixelate cfg env nftPath pixelatedPath st =
           (Inr pixelatedPath, st\<lparr>files := (files st)(pixelatedPath := Some c)\<rparr>)"
  using assms
  by (auto simp: generateNFT_pixelate_def generateNFT_copy_original_def pixelateImage_def copyFileSync_def writeFileSync_def
      existsSync_def)

lemma pixelate_total:
  assumes "files st nftPath = Some c" and "writable env pixelatedPath"
  shows "\<exists>p st2. generateNFT_pixelate cfg env nftPath pixelatedPath st = (Inr p, st2) \<and>
           (\<forall>q. q \<noteq> pixelatedPath \<longrightarrow> files st2 q = files st q)"
  using assms
  by (auto simp: generateNFT_pixelate_def generateNFT_copy_original_def pixelateImage_def copyFileSync_def writeFileSync_def
      existsSync_def split: option.splits)

lemma generate2DImage_emergency:
  assumes "fst (generate2DImage_body cfg env ident st) = Inl e"
    and "writable env (outputFolder cfg @ ''emergency_'' @ show_nat ident @ ''.png'')"
  shows "\<exists>st1. generate2DImage cfg env ident st =
           (Inr \<lparr>r_nftPath = outputFolder cfg @ ''emergency_'' @ show_nat ident @ ''.png'',
                 r_attributes = [\<lparr>trait_type = ''error'', trait_value = ''generation_failed''\<rparr>],
                 r_species = ''error''\<rparr>, st1) \<and>
           files st1 (outputFolder cfg @ ''emergency_'' @ show_nat ident @ ''.png'') =
             Some (Png [FillRect ''#FF00FF'', FillText (''Error generating NFT #'' @ show_nat ident)])"
  using assms
  by (cases "generate2DImage_body cfg env ident st")
     (simp add: generate2DImage_def Let_def writeFileSync_def error_canvas_def error_attributes_def)

lemma generateNFT_id:
  assumes "generateNFT cfg env i st = (Inr res, st')"
  shows "n_id res = i"
  using assms
  by (auto simp: generateNFT_def Let_def split: prod.splits sum.splits if_splits)

lemma loop_keeps_results:
  "set results \<subseteq> set (fst (generateMultipleNFTs_loop cfg env count j results st))"
proof (induction cfg env count j results st rule: generateMultipleNFTs_loop.induct)
  case (1 cfg env count i results st)
  show ?case
  proof (cases "i \<le> count")
    case False
    then show ?thesis by (simp add: generateMultipleNFTs_loop.simps [of cfg env count i])
  next
    case True
    obtain x st' where g: "generateNFT cfg env i st = (x, st')"
      by (cases "generateNFT cfg env i st")
    show ?thesis
    proof (cases x)
      case (Inl e)
      then have "set results \<subseteq> set (fst (generateMultipleNFTs_loop cfg env count (i + 1) results st'))"
        using "1.IH" True g by auto
      then show ?thesis
        using True g Inl by (simp add: generateMultipleNFTs_loop.simps [of cfg env count i])
    next
      case (Inr res)
      then have "set (results @ [res]) \<subseteq>
          set (fst (generateMultipleNFTs_loop cfg env count (i + 1) (results @ [res]) st'))"
        using "1.IH" True g by auto
      then show ?thesis
        using True g Inr by (simp add: generateMultipleNFTs_loop.simps [of cfg env count i])
    qed
  qed
qed

lemma loop_reaches:
  assumes "\<forall>s. \<exists>res. fst (generateNFT cfg env i s) = Inr res"
  shows "j \<le> i \<Longrightarrow> i \<le> count \<Longrightarrow>
         i \<in> n_id ` set (fst (generateMultipleNFTs_loop cfg env count j results st))"
  using assms
proof (induction cfg env count j results st rule: generateMultipleNFTs_loop.induct)
  case (1 cfg env count j results st)
  have jc: "j \<le> count" using "1.prems"(1,2) by simp
  obtain x st' where g: "generateNFT cfg env j st = (x, st')"
    by (cases "generateNFT cfg env j st")
  show ?case
  proof (cases "j = i")
    case True
    obtain res where r: "x = Inr res" using "1.prems"(3) g True by (metis fst_conv)
    have "n_id res = i" using g r True generateNFT_id by blast
    moreover have "res \<in> set (fst (generateMultipleNFTs_loop cfg env count (j + 1) (results @ [res]) st'))"
      using loop_keeps_results [of "results @ [res]" cfg env count "j + 1" st'] by auto
    ultimately show ?thesis
      using jc g r by (auto simp: generateMultipleNFTs_loop.simps [of cfg env count j])
  next
    case False
    then have ji: "j + 1 \<le> i" using "1.prems"(1) by simp
    show ?thesis
    proof (cases x)
      case (Inl e)
      then have "i \<in> n_id ` set (fst (generateMultipleNFTs_loop cfg env count (j + 1) results st'))"
        using "1.IH" jc g ji "1.prems"(2,3) by auto
      then show ?thesis
        using jc g Inl by (simp add: generateMultipleNFTs_loop.simps [of cfg env count j])
    next
      case (Inr res)
      then have "i \<in> n_id ` set (fst (generateMultipleNFTs_loop cfg env count (j + 1) (results @ [res]) st'))"
        using "1.IH" jc g ji "1.prems"(2,3) by auto
      then show ?thesis
        using jc g Inr by (simp add: generateMultipleNFTs_loop.simps [of cfg env count j])
    qed
  qed
qed

text \<open>With the species fixed by the environment, a generation succeeds once its three files can be written.\<close>

lemma generateNFT_succeeds:
  assumes "SPECIES env = None"
    and "outputFolder cfg \<in> folders st \<or> writable env (outputFolder cfg)"
    and "writable env (outputFolder cfg @ ''indigo'' @ ''_nft_'' @ show_nat i @ ''.png'')"
    and "writable env (outputFolder cfg @ ''indigo'' @ ''_nft_'' @ show_nat i @ ''_pixelated.png'')"
    and "writable env (outputFolder cfg @ ''indigo'' @ ''_nft_'' @ show_nat i @ ''.json'')"
  shows "\<exists>res. fst (generateNFT cfg env i st) = Inr res"
proof -
  let ?N = "outputFolder cfg @ ''indigo'' @ ''_nft_'' @ show_nat i @ ''.png''"
  let ?P = "outputFolder cfg @ ''indigo'' @ ''_nft_'' @ show_nat i @ ''_pixelated.png''"
  have "\<exists>attrs st3 cv. generate2DImage_body cfg env i (st\<lparr>canvas_ops := []\<rparr>) =
      (Inr \<lparr>r_nftPath = ?N, r_attributes = attrs, r_species = ''indigo''\<rparr>, st3) \<and>
      files st3 ?N = Some (Png cv)"
    using assms(1,2,3)
    by (auto simp: generate2DImage_body_def getSpeciesToGenerate_def mkdirSync_def writeFileSync_def
        Let_def simp del: process_layers.simps)
  then obtain attrs st3 cv where
    g: "generate2DImage cfg env i (st\<lparr>canvas_ops := []\<rparr>) =
      (Inr \<lparr>r_nftPath = ?N, r_attributes = attrs, r_species = ''indigo''\<rparr>, st3)"
    and f: "files st3 ?N = Some (Png cv)"
    by (auto simp: generate2DImage_def)
  from pixelate_total [OF f assms(4), of cfg]
  obtain p st2 where px: "generateNFT_pixelate cfg env ?N ?P st3 = (Inr p, st2)"
    by blast
  show ?thesis
    using g f px assms(5)
    by (simp add: generateNFT_def existsSync_def Let_def writeFileSync_def)
qed


section \<open>Runs of the model on the sample inputs\<close>

lemmas select_defs = getRandomComponent_def filter_files_def to_component_file_def string_defs
  next_random_def select_file_def at_index_def random_index_def

lemmas layer_defs = process_layer_def drawLayer_def drawLayer_rect_def fileNameWithoutExt_def substring0_def

lemma default_config_simps:
  "width default_config = 512" "height default_config = 512" "layers default_config = layerConfig"
  "outputFolder default_config = ''./output/''" "SKIP_PIXELATION default_config = False"
  "SAVE_INTERMEDIATE_LAYERS default_config = False"
  by (simp_all add: default_config_def)

lemma sample_state_simps:
  "canvas_ops sample_state = []" "files sample_state = (\<lambda>p. None)"
  "folders sample_state = {''./output/''}" "rands sample_state = (\<lambda>n. 1 / 2)"
  by (simp_all add: sample_state_def)

lemma sample_env_simps:
  "SUPABASE_URL sample_env = ''https://sb''" "SPECIES sample_env = None"
  "storage_list sample_env = sample_listing"
  "loadImage sample_env = (\<lambda>u. Some \<lparr>img_src = u, img_width = 256, img_height = 512\<rparr>)"
  "drawImage_throws sample_env = (\<lambda>i. False)" "writable sample_env = (\<lambda>p. True)"
  "jimp_read_ok sample_env = (\<lambda>c. True)" "jimp_writeAsync sample_env = (\<lambda>p. Written)"
  "upload_ok sample_env = (\<lambda>b k. True)"
  by (simp_all add: sample_env_def)

lemma show_nat_1: "show_nat (Suc 0) = ''1''"
  by (simp add: show_nat.simps digit_char_def)

lemma sample_layers_run:
  assumes "storage_list env = sample_listing" and "SUPABASE_URL env = ''https://sb''"
    and "loadImage env = (\<lambda>u. Some \<lparr>img_src = u, img_width = 256, img_height = 512\<rparr>)"
    and "drawImage_throws env = (\<lambda>i. False)"
    and "rands st = (\<lambda>n. 1 / 2)"
  shows "process_layers default_config env ''indigo'' ident 0 layerConfig
           \<lparr>attributes = a0, backgroundDrawn = False, drawnCategories = {}, state = st\<rparr> =
         \<lparr>attributes = a0 @
            [\<lparr>trait_type = ''background'', trait_value = ''stars''\<rparr>,
             \<lparr>trait_type = ''head'', trait_value = ''round''\<rparr>,
             \<lparr>trait_type = ''eyes'', trait_value = ''Wide''\<rparr>],
          backgroundDrawn = True,
          drawnCategories = {''eyes'', ''head'', ''background''},
          state = st\<lparr>rands := (\<lambda>n. 1 / 2),
            canvas_ops := canvas_ops st @
              [DrawImage \<lparr>img_src = ''https://sb/storage/v1/object/public/space-babiez/indigo/background/stars.png'',
                          img_width = 256, img_height = 512\<rparr> 0 0 512 512,
               DrawImage \<lparr>img_src = ''https://sb/storage/v1/object/public/space-babiez/indigo/head/round.svg'',
                          img_width = 256, img_height = 512\<rparr> 128 0 256 512,
               DrawImage \<lparr>img_src = ''https://sb/storage/v1/object/public/space-babiez/indigo/eyes/Wide.SVG'',
                          img_width = 256, img_height = 512\<rparr> 192 153.6 128 256]\<rparr>\<rparr>"
  using assms
  by (simp add: layerConfig_def default_config_def sample_listing_def select_defs layer_defs)

lemma sample_body_run:
  assumes "storage_list env = sample_listing" and "SUPABASE_URL env = ''https://sb''"
    and "loadImage env = (\<lambda>u. Some \<lparr>img_src = u, img_width = 256, img_height = 512\<rparr>)"
    and "drawImage_throws env = (\<lambda>i. False)"
    and "SPECIES env = None"
    and "writable env ''./output/indigo_nft_1.png''"
    and "rands st = (\<lambda>n. 1 / 2)" and "''./output/'' \<in> folders st"
  shows "generate2DImage_body default_config env 1 st =
           (Inr \<lparr>r_nftPath = ''./output/indigo_nft_1.png'', r_attributes = sample_traits,
                 r_species = ''indigo''\<rparr>,
            st\<lparr>rands := (\<lambda>n. 1 / 2), canvas_ops := sample_canvas,
               files := (files st)(''./output/indigo_nft_1.png'' := Some (Png sample_canvas))\<rparr>)"
proof -
  let ?st2 = "st\<lparr>rands := (\<lambda>n. 1 / 2), canvas_ops := [FillRect ''#FFFFFF'']\<rparr>"
  have r: "rands ?st2 = (\<lambda>n. 1 / 2)" by simp
  note run = sample_layers_run [OF assms(1-4) r,
      of "Suc 0" "[\<lparr>trait_type = ''species'', trait_value = ''indigo''\<rparr>]"]
  show ?thesis
    using assms(5-8)
    by (simp add: generate2DImage_body_def default_config_simps getSpeciesToGenerate_def run
        show_nat_1 writeFileSync_def sample_traits_def sample_canvas_def Let_def)
qed

lemma duplicate_species_layers_run:
  "process_layers duplicate_species_config nebula_env ''indigo'' (Suc 0) 0
     [\<lparr>category = ''species'', ltype = ''background'', optional = False\<rparr>]
     \<lparr>attributes = [\<lparr>trait_type = ''species'', trait_value = ''indigo''\<rparr>],
      backgroundDrawn = False, drawnCategories = {},
      state = sample_state\<lparr>rands := (\<lambda>n. 1 / 2), canvas_ops := [FillRect ''#FFFFFF'']\<rparr>\<rparr> =
   \<lparr>attributes = [\<lparr>trait_type = ''species'', trait_value = ''indigo''\<rparr>,
                  \<lparr>trait_type = ''species'', trait_value = ''nebula''\<rparr>],
    backgroundDrawn = False, drawnCategories = {''species''},
    state = sample_state\<lparr>rands := (\<lambda>n. 1 / 2),
      canvas_ops := [FillRect ''#FFFFFF'',
        DrawImage \<lparr>img_src = ''https://sb/storage/v1/object/public/space-babiez/indigo/species/nebula.png'',
                   img_width = 256, img_height = 512\<rparr> 0 0 512 512]\<rparr>\<rparr>"
  by (simp add: duplicate_species_config_def nebula_env_def sample_env_simps default_config_simps
      select_defs layer_defs sample_state_simps)

lemma getRandomComponent_required_error:
  assumes "\<not> optional l"
    and "error (storage_list env (sp @ ''/'' @ category l)) = None"
    and "case data (storage_list env (sp @ ''/'' @ category l)) of
           None \<Rightarrow> True
         | Some d \<Rightarrow> filter_files env (sp @ ''/'' @ category l) d = []"
  shows "fst (getRandomComponent env l sp g) = Inl (NoComponentsFound (sp @ ''/'' @ category l)) \<or>
         fst (getRandomComponent env l sp g) = Inl (NoImageFilesFound (sp @ ''/'' @ category l))"
  using assms by (auto simp: getRandomComponent_def Let_def split: option.splits)

lemma empty_bucket_layers_run:
  assumes "storage_list env = (\<lambda>p. \<lparr>data = Some [], error = None\<rparr>)"
  shows "process_layers default_config env sp ident 0 layerConfig s = s"
proof -
  have "\<And>l i s. process_layer default_config env sp ident i l s = s"
    using assms by (intro process_layer_no_candidates) (simp add: filter_files_def)
  then show ?thesis by (simp add: layerConfig_def)
qed

lemma no_decode_env_simps:
  "SUPABASE_URL no_decode_env = ''https://sb''" "SPECIES no_decode_env = None"
  "storage_list no_decode_env = sample_listing"
  "loadImage no_decode_env = (\<lambda>u. None)"
  "drawImage_throws no_decode_env = (\<lambda>i. False)" "writable no_decode_env = (\<lambda>p. True)"
  by (simp_all add: no_decode_env_def sample_env_simps)

lemma no_decode_layers_run:
  "process_layers default_config no_decode_env ''indigo'' (Suc 0) 0 layerConfig
     \<lparr>attributes = [\<lparr>trait_type = ''species'', trait_value = ''indigo''\<rparr>],
      backgroundDrawn = False, drawnCategories = {},
      state = sample_state\<lparr>rands := (\<lambda>n. 1 / 2), canvas_ops := [FillRect ''#FFFFFF'']\<rparr>\<rparr> =
   \<lparr>attributes = [\<lparr>trait_type = ''species'', trait_value = ''indigo''\<rparr>,
                  \<lparr>trait_type = ''background'', trait_value = ''stars''\<rparr>],
    backgroundDrawn = True, drawnCategories = {''background''},
    state = sample_state\<lparr>rands := (\<lambda>n. 1 / 2),
      canvas_ops := [FillRect ''#FFFFFF'', FillRect ''#FFFFFF'']\<rparr>\<rparr>"
  by (simp add: layerConfig_def no_decode_env_simps default_config_simps sample_listing_def
      select_defs layer_defs sample_state_simps)

lemma sample_generate2DImage_run:
  assumes "storage_list env = sample_listing" and "SUPABASE_URL env = ''https://sb''"
    and "loadImage env = (\<lambda>u. Some \<lparr>img_src = u, img_width = 256, img_height = 512\<rparr>)"
    and "drawImage_throws env = (\<lambda>i. False)"
    and "SPECIES env = None"
    and "writable env ''./output/indigo_nft_1.png''"
    and "rands st = (\<lambda>n. 1 / 2)" and "''./output/'' \<in> folders st"
  shows "generate2DImage default_config env 1 st =
           (Inr \<lparr>r_nftPath = ''./output/indigo_nft_1.png'', r_attributes = sample_traits,
                 r_species = ''indigo''\<rparr>,
            st\<lparr>rands := (\<lambda>n. 1 / 2), canvas_ops := sample_canvas,
               files := (files st)(''./output/indigo_nft_1.png'' := Some (Png sample_canvas))\<rparr>)"
  using sample_body_run [OF assms] by (simp add: generate2DImage_def)

lemma broken_jimp_env_simps:
  "SUPABASE_URL broken_jimp_env = ''https://sb''" "SPECIES broken_jimp_env = None"
  "storage_list broken_jimp_env = sample_listing"
  "loadImage broken_jimp_env = (\<lambda>u. Some \<lparr>img_src = u, img_width = 256, img_height = 512\<rparr>)"
  "drawImage_throws broken_jimp_env = (\<lambda>i. False)" "writable broken_jimp_env = (\<lambda>p. True)"
  "jimp_read_ok broken_jimp_env = (\<lambda>c. False)" "upload_ok broken_jimp_env = (\<lambda>b k. True)"
  by (simp_all add: broken_jimp_env_def sample_env_simps)

lemma readonly_pixelated_env_simps:
  "SUPABASE_URL readonly_pixelated_env = ''https://sb''" "SPECIES readonly_pixelated_env = None"
  "storage_list readonly_pixelated_env = sample_listing"
  "loadImage readonly_pixelated_env = (\<lambda>u. Some \<lparr>img_src = u, img_width = 256, img_height = 512\<rparr>)"
  "drawImage_throws readonly_pixelated_env = (\<lambda>i. False)"
  "writable readonly_pixelated_env = (\<lambda>p. p \<noteq> ''./output/indigo_nft_1_pixelated.png'')"
  "jimp_read_ok readonly_pixelated_env = (\<lambda>c. True)"
  "jimp_writeAsync readonly_pixelated_env = (\<lambda>p. WriteThrows)"
  by (simp_all add: readonly_pixelated_env_def sample_env_simps)

lemma sample_body_unsavable:
  assumes "storage_list env = sample_listing" and "SUPABASE_URL env = ''https://sb''"
    and "loadImage env = (\<lambda>u. Some \<lparr>img_src = u, img_width = 256, img_height = 512\<rparr>)"
    and "drawImage_throws env = (\<lambda>i. False)"
    and "SPECIES env = None"
    and "\<not> writable env ''./output/indigo_nft_1.png''"
    and "\<not> writable env ''./output/fallback_indigo_1.png''"
    and "rands st = (\<lambda>n. 1 / 2)" and "''./output/'' \<in> folders st"
  shows "generate2DImage_body default_config env 1 st =
           (Inl (FileError ''./output/fallback_indigo_1.png''),
            st\<lparr>rands := (\<lambda>n. 1 / 2), canvas_ops := sample_canvas\<rparr>)"
proof -
  let ?st2 = "st\<lparr>rands := (\<lambda>n. 1 / 2), canvas_ops := [FillRect ''#FFFFFF'']\<rparr>"
  have r: "rands ?st2 = (\<lambda>n. 1 / 2)" by simp
  note run = sample_layers_run [OF assms(1-4) r,
      of "Suc 0" "[\<lparr>trait_type = ''species'', trait_value = ''indigo''\<rparr>]"]
  show ?thesis
    using assms(5-9)
    by (simp add: generate2DImage_body_def default_config_simps getSpeciesToGenerate_def run
        show_nat_1 writeFileSync_def sample_canvas_def Let_def)
qed

lemma unsavable_first_env_simps:
  "SUPABASE_URL unsavable_first_env = ''https://sb''" "SPECIES unsavable_first_env = None"
  "storage_list unsavable_first_env = sample_listing"
  "loadImage unsavable_first_env = (\<lambda>u. Some \<lparr>img_src = u, img_width = 256, img_height = 512\<rparr>)"
  "drawImage_throws unsavable_first_env = (\<lambda>i. False)"
  "writable unsavable_first_env =
     (\<lambda>p. p \<noteq> ''./output/indigo_nft_1.png'' \<and> p \<noteq> ''./output/fallback_indigo_1.png'')"
  by (simp_all add: unsavable_first_env_def sample_env_simps)

lemma readonly_env_simps:
  "SUPABASE_URL readonly_env = ''https://sb''" "SPECIES readonly_env = None"
  "storage_list readonly_env = sample_listing"
  "loadImage readonly_env = (\<lambda>u. Some \<lparr>img_src = u, img_width = 256, img_height = 512\<rparr>)"
  "drawImage_throws readonly_env = (\<lambda>i. False)"
  "writable readonly_env = (\<lambda>p. False)"
  by (simp_all add: readonly_env_def sample_env_simps)

lemma unwritable_first_env_simps:
  "SUPABASE_URL unwritable_first_env = ''https://sb''" "SPECIES unwritable_first_env = None"
  "storage_list unwritable_first_env = sample_listing"
  "loadImage unwritable_first_env = (\<lambda>u. Some \<lparr>img_src = u, img_width = 256, img_height = 512\<rparr>)"
  "drawImage_throws unwritable_first_env = (\<lambda>i. False)"
  "writable unwritable_first_env =
     (\<lambda>p. p \<noteq> ''./output/indigo_nft_1.png'' \<and> p \<noteq> ''./output/fallback_indigo_1.png'' \<and>
          p \<noteq> ''./output/emergency_1.png'')"
  by (simp_all add: unwritable_first_env_def sample_env_simps)

lemma show_nat_2: "show_nat 2 = ''2''"
  by (simp add: show_nat.simps digit_char_def)


section \<open>Component selection (C4)\<close>

text \<open>
  C4. Over a non-empty filtered candidate list, a layer of type \<open>base\<close> or \<open>feature\<close>
  with at least one SVG candidate gets an SVG candidate, a raster candidate is never
  chosen while an SVG one is there, and in every other case the choice is among all
  candidates. The chosen candidate is the one at index \<open>\<lfloor>r * n\<rfloor>\<close> of the \<open>n\<close>
  candidates in question, for the random number \<open>r\<close> drawn; index \<open>j\<close> is chosen exactly
  for \<open>r\<close> in the interval from \<open>j / n\<close> to \<open>(j + 1) / n\<close>, so that every candidate has
  the same share \<open>1 / n\<close> of the random numbers: the choice is uniform.
\<close>

theorem selection_policy:
  assumes "error (storage_list env (species @ ''/'' @ category l)) = None"
    and "data (storage_list env (species @ ''/'' @ category l)) = Some d"
    and "fs = filter_files env (species @ ''/'' @ category l) d"
    and "fs \<noteq> []"
    and "0 \<le> g 0" and "g 0 < 1"
    and "cands = (if (ltype l = ''base'' \<or> ltype l = ''feature'') \<and> (\<exists>f \<in> set fs. f_type f = svg)
                  then filter (\<lambda>f. f_type f = svg) fs else fs)"
  shows "(\<exists>i < length cands.
            fst (getRandomComponent env l species g) =
              Inr (Some \<lparr>c_url = f_url (cands ! i), c_name = f_name (cands ! i),
                         c_category = category l, c_type = ltype l\<rparr>) \<and>
            cands ! i \<in> set fs \<and>
            ((ltype l = ''base'' \<or> ltype l = ''feature'') \<and> (\<exists>f \<in> set fs. f_type f = svg)
               \<longrightarrow> f_type (cands ! i) = svg) \<and>
            real i / real (length cands) \<le> g 0 \<and> g 0 < (real i + 1) / real (length cands)) \<and>
         (\<forall>j < length cands. \<forall>r.
            (random_index r (length cands) = int j) =
            (real j / real (length cands) \<le> r \<and> r < (real j + 1) / real (length cands)))"
proof (rule conjI)
  have ne: "cands \<noteq> []" using assms(4,7) by (auto simp: filter_empty_conv)
  define i where "i = nat (random_index (g 0) (length cands))"
  have il: "i < length cands" using at_index_random(2) [OF ne assms(5,6)] by (simp add: i_def)
  have ri: "random_index (g 0) (length cands) = int i"
    using random_index_bounds [of "g 0" "length cands"] assms(5,6) ne by (simp add: i_def)
  have sel0: "select_file (ltype l) fs (g 0) = at_index cands (random_index (g 0) (length cands))"
    using assms(7) by (simp add: select_file_def Let_def)
  have sel: "select_file (ltype l) fs (g 0) = Some (cands ! i)"
    using sel0 at_index_random(1) [OF ne assms(5,6)] by (simp add: i_def)
  have mem: "cands ! i \<in> set fs" using sel by (rule select_file_mem)
  have res: "fst (getRandomComponent env l species g) =
      Inr (Some \<lparr>c_url = f_url (cands ! i), c_name = f_name (cands ! i),
                 c_category = category l, c_type = ltype l\<rparr>)"
    using getRandomComponent_selects [where f = "cands ! i" and g = g, OF assms(1,2)] assms(3,4) sel by simp
  have kind: "(ltype l = ''base'' \<or> ltype l = ''feature'') \<and> (\<exists>f \<in> set fs. f_type f = svg)
      \<longrightarrow> f_type (cands ! i) = svg"
  proof
    assume c: "(ltype l = ''base'' \<or> ltype l = ''feature'') \<and> (\<exists>f \<in> set fs. f_type f = svg)"
    then have "cands ! i \<in> set (filter (\<lambda>f. f_type f = svg) fs)"
      using assms(7) il nth_mem [of i cands] by simp
    then show "f_type (cands ! i) = svg" by simp
  qed
  have iv: "real i / real (length cands) \<le> g 0 \<and> g 0 < (real i + 1) / real (length cands)"
    using random_index_interval [of "length cands" "g 0" i] ri ne by simp
  show "\<exists>i < length cands.
            fst (getRandomComponent env l species g) =
              Inr (Some \<lparr>c_url = f_url (cands ! i), c_name = f_name (cands ! i),
                         c_category = category l, c_type = ltype l\<rparr>) \<and>
            cands ! i \<in> set fs \<and>
            ((ltype l = ''base'' \<or> ltype l = ''feature'') \<and> (\<exists>f \<in> set fs. f_type f = svg)
               \<longrightarrow> f_type (cands ! i) = svg) \<and>
            real i / real (length cands) \<le> g 0 \<and> g 0 < (real i + 1) / real (length cands)"
    using il res mem kind iv by blast
next
  show "\<forall>j < length cands. \<forall>r.
            (random_index r (length cands) = int j) =
            (real j / real (length cands) \<le> r \<and> r < (real j + 1) / real (length cands))"
  proof (intro allI impI)
    fix j r
    assume "j < length cands"
    then have "0 < length cands" by (cases cands) simp_all
    then show "(random_index r (length cands) = int j) =
        (real j / real (length cands) \<le> r \<and> r < (real j + 1) / real (length cands))"
      by (rule random_index_interval)
  qed
qed

theorem selection_policy_witness:
  "fst (getRandomComponent sample_env \<lparr>category = ''eyes'', ltype = ''feature'', optional = False\<rparr>
          ''indigo'' (\<lambda>n. 1 / 2)) =
     Inr (Some \<lparr>c_url = ''https://sb/storage/v1/object/public/space-babiez/indigo/eyes/Wide.SVG'',
                c_name = ''Wide.SVG'', c_category = ''eyes'', c_type = ''feature''\<rparr>)"
proof -
  let ?l = "\<lparr>category = ''eyes'', ltype = ''feature'', optional = False\<rparr>"
  let ?d = "[''blue.svg'', ''green.png'', ''Wide.SVG'']"
  let ?fs = "filter_files sample_env ''indigo/eyes'' ?d"
  have h1: "error (storage_list sample_env (''indigo'' @ ''/'' @ category ?l)) = None"
    by (simp add: sample_env_def sample_listing_def)
  have h2: "data (storage_list sample_env (''indigo'' @ ''/'' @ category ?l)) = Some ?d"
    by (simp add: sample_env_def sample_listing_def)
  have h3: "?fs = filter_files sample_env (''indigo'' @ ''/'' @ category ?l) ?d" by simp
  have h4: "?fs \<noteq> []" by (simp add: sample_eyes_files)
  have h5: "(0::real) \<le> (\<lambda>n::nat. 1 / 2) 0" and h6: "(\<lambda>n::nat. 1 / 2 :: real) 0 < 1" by simp_all
  have h7: "filter (\<lambda>f. f_type f = svg) ?fs =
      (if (ltype ?l = ''base'' \<or> ltype ?l = ''feature'') \<and> (\<exists>f \<in> set ?fs. f_type f = svg)
       then filter (\<lambda>f. f_type f = svg) ?fs else ?fs)"
    by (simp add: sample_eyes_files)
  have t: "\<exists>i < length (filter (\<lambda>f. f_type f = svg) ?fs).
      fst (getRandomComponent sample_env ?l ''indigo'' (\<lambda>n. 1 / 2)) =
        Inr (Some \<lparr>c_url = f_url (filter (\<lambda>f. f_type f = svg) ?fs ! i),
                   c_name = f_name (filter (\<lambda>f. f_type f = svg) ?fs ! i),
                   c_category = category ?l, c_type = ltype ?l\<rparr>) \<and>
      real i / real (length (filter (\<lambda>f. f_type f = svg) ?fs)) \<le> (1 / 2 :: real) \<and>
      (1 / 2 :: real) < (real i + 1) / real (length (filter (\<lambda>f. f_type f = svg) ?fs))"
    using selection_policy [OF h1 h2 h3 h4 h5 h6 h7] by blast
  then obtain i where i: "i < 2"
    and r: "fst (getRandomComponent sample_env ?l ''indigo'' (\<lambda>n. 1 / 2)) =
        Inr (Some \<lparr>c_url = f_url (filter (\<lambda>f. f_type f = svg) ?fs ! i),
                   c_name = f_name (filter (\<lambda>f. f_type f = svg) ?fs ! i),
                   c_category = ''eyes'', c_type = ''feature''\<rparr>)"
    and lo: "real i / 2 \<le> (1 / 2 :: real)" and hi: "(1 / 2 :: real) < (real i + 1) / 2"
    by (auto simp: sample_eyes_files)
  have "i = 1" using i hi by (cases i) auto
  then show ?thesis using r by (simp add: sample_eyes_files)
qed

section \<open>Layer placement (C5, C6, C7, C10)\<close>

text \<open>
  C7. A background layer whose image has been loaded is drawn into the rectangle at
  \<open>(0, 0)\<close> of the width and height of the canvas, whatever the natural size of the
  image.
\<close>

theorem background_covers_canvas:
  assumes "c_type info = ''background''" "c_url info \<noteq> []"
    and "loadImage env (c_url info) = Some img" "\<not> drawImage_throws env img"
  shows "drawLayer_rect cfg (c_type info) (c_category info) img =
           \<lparr>drawX = 0, drawY = 0, drawWidth = width cfg, drawHeight = height cfg\<rparr> \<and>
         drawLayer cfg env info cv = (True, cv @ [DrawImage img 0 0 (width cfg) (height cfg)])"
  using assms by (simp add: drawLayer_rect_def drawLayer_def)

theorem background_covers_canvas_witness:
  "drawLayer default_config sample_env
     \<lparr>c_url = ''https://sb/a.png'', c_name = ''a.png'', c_category = ''background'',
      c_type = ''background''\<rparr> [FillRect ''#FFFFFF''] =
   (True, [FillRect ''#FFFFFF'', DrawImage sample_image 0 0 512 512])"
  using background_covers_canvas [of
      "\<lparr>c_url = ''https://sb/a.png'', c_name = ''a.png'', c_category = ''background'',
        c_type = ''background''\<rparr>" sample_env sample_image default_config "[FillRect ''#FFFFFF'']"]
  by (simp add: sample_env_def sample_image_def default_config_def)

text \<open>
  C5. An outfit layer with an image of positive natural size: the height scale is the
  smaller of \<open>canvasW / imgW * 0.9\<close> and \<open>canvasH / imgH * 0.9\<close>, the height is
  \<open>imgH\<close> times that scale, the width is \<open>imgW * (heightScale * 1.15)\<close>, which is 1.15
  times the width the height scale would give, the rectangle is centred horizontally
  with that width, and its vertical offset is \<open>canvasH * 0.1\<close>.
\<close>

theorem outfit_placement:
  assumes "0 < img_width img" "0 < img_height img"
    and "heightScale = min (width cfg / img_width img * 0.9) (height cfg / img_height img * 0.9)"
    and "r = drawLayer_rect cfg ''outfit'' cat img"
  shows "drawHeight r = img_height img * heightScale \<and>
         drawWidth r = img_width img * (heightScale * 1.15) \<and>
         drawWidth r = 1.15 * (img_width img * heightScale) \<and>
         drawX r = (width cfg - drawWidth r) / 2 \<and>
         drawX r + drawWidth r / 2 = width cfg / 2 \<and>
         drawY r = height cfg * 0.1"
  using assms(3,4) by (simp add: drawLayer_rect_def Let_def field_simps)

theorem outfit_placement_witness:
  "drawWidth (drawLayer_rect default_config ''outfit'' ''clothing'' sample_image) = 264.96 \<and>
   drawHeight (drawLayer_rect default_config ''outfit'' ''clothing'' sample_image) = 460.8 \<and>
   drawX (drawLayer_rect default_config ''outfit'' ''clothing'' sample_image) = 123.52 \<and>
   drawY (drawLayer_rect default_config ''outfit'' ''clothing'' sample_image) = 51.2"
proof -
  have p: "0 < img_width sample_image" "0 < img_height sample_image"
    by (simp_all add: sample_image_def)
  show ?thesis
    using outfit_placement [OF p refl refl, of default_config "''clothing''"]
    by (simp add: sample_image_def default_config_def)
qed

text \<open>
  C6. An accessory layer with an image of positive natural size: one scale, the smaller
  of \<open>canvasW / imgW * 0.7\<close> and \<open>canvasH / imgH * 0.5\<close>, for width and height, centred
  horizontally, with the vertical offset \<open>canvasH * 0.05\<close> for the category \<open>hats\<close>,
  \<open>canvasH * 0.69\<close> for \<open>neck\<close>, \<open>canvasH * 0.4\<close> for \<open>binky\<close> and \<open>canvasH * 0.2\<close>
  otherwise.
\<close>

theorem accessory_placement:
  assumes "0 < img_width img" "0 < img_height img"
    and "scale = min (width cfg / img_width img * 0.7) (height cfg / img_height img * 0.5)"
    and "r = drawLayer_rect cfg ''accessory'' cat img"
  shows "drawWidth r = img_width img * scale \<and>
         drawHeight r = img_height img * scale \<and>
         drawX r = (width cfg - drawWidth r) / 2 \<and>
         drawX r + drawWidth r / 2 = width cfg / 2 \<and>
         drawY r = (if cat = ''hats'' then height cfg * 0.05
                    else if cat = ''neck'' then height cfg * 0.69
                    else if cat = ''binky'' then height cfg * 0.4
                    else height cfg * 0.2)"
  using assms(3,4) by (simp add: drawLayer_rect_def Let_def field_simps)

theorem accessory_placement_witness:
  "drawWidth (drawLayer_rect default_config ''accessory'' ''hats'' sample_image) = 128 \<and>
   drawHeight (drawLayer_rect default_config ''accessory'' ''hats'' sample_image) = 256 \<and>
   drawX (drawLayer_rect default_config ''accessory'' ''hats'' sample_image) = 192 \<and>
   drawY (drawLayer_rect default_config ''accessory'' ''hats'' sample_image) = 25.6"
proof -
  have p: "0 < img_width sample_image" "0 < img_height sample_image"
    by (simp_all add: sample_image_def)
  show ?thesis
    using accessory_placement [OF p refl refl, of default_config "''hats''"]
    by (simp add: sample_image_def default_config_def)
qed

text \<open>
  C10, as the code has it. A layer whose type is none of \<open>background\<close>, \<open>base\<close>,
  \<open>feature\<close> and \<open>outfit\<close>, with an image of positive natural size, is placed by the
  arithmetic of the accessories: the scale is the smaller of \<open>canvasW / imgW * 0.7\<close>
  and \<open>canvasH / imgH * 0.5\<close>, the rectangle is centred horizontally, and the vertical
  offset is \<open>canvasH * 0.05\<close> for the category \<open>hats\<close>, \<open>canvasH * 0.69\<close> for \<open>neck\<close>,
  \<open>canvasH * 0.4\<close> for \<open>binky\<close> and \<open>canvasH * 0.2\<close> for every other category. The
  layer of type \<open>special\<close> in \<open>layerConfig\<close> has the category \<open>special\<close> and so the
  offset \<open>canvasH * 0.2\<close>.
\<close>

theorem other_types_placement:
  assumes "0 < img_width img" "0 < img_height img"
    and "t \<noteq> ''background''" "t \<noteq> ''base''" "t \<noteq> ''feature''" "t \<noteq> ''outfit''"
    and "scale = min (width cfg / img_width img * 0.7) (height cfg / img_height img * 0.5)"
    and "r = drawLayer_rect cfg t cat img"
  shows "drawWidth r = img_width img * scale \<and>
         drawHeight r = img_height img * scale \<and>
         drawX r = (width cfg - drawWidth r) / 2 \<and>
         drawX r + drawWidth r / 2 = width cfg / 2 \<and>
         drawY r = (if cat = ''hats'' then height cfg * 0.05
                    else if cat = ''neck'' then height cfg * 0.69
                    else if cat = ''binky'' then height cfg * 0.4
                    else height cfg * 0.2) \<and>
         (cat \<noteq> ''hats'' \<and> cat \<noteq> ''neck'' \<and> cat \<noteq> ''binky'' \<longrightarrow> drawY r = height cfg * 0.2) \<and>
         (\<forall>l \<in> set layerConfig. ltype l = ''special'' \<longrightarrow>
            category l = ''special'' \<and>
            drawLayer_rect cfg (ltype l) (category l) img =
              \<lparr>drawX = (width cfg - img_width img * scale) / 2, drawY = height cfg * 0.2,
               drawWidth = img_width img * scale, drawHeight = img_height img * scale\<rparr>)"
  using assms(3-8) by (simp add: drawLayer_rect_def Let_def field_simps layerConfig_def)

theorem other_types_placement_witness:
  "drawLayer_rect default_config ''special'' ''special'' sample_image =
     \<lparr>drawX = 192, drawY = 102.4, drawWidth = 128, drawHeight = 256\<rparr> \<and>
   drawY (drawLayer_rect default_config ''accessory'' ''neck'' sample_image) = 353.28"
proof -
  have p: "0 < img_width sample_image" "0 < img_height sample_image"
    by (simp_all add: sample_image_def)
  have l: "\<lparr>category = ''special'', ltype = ''special'', optional = True\<rparr> \<in> set layerConfig"
    by (simp add: layerConfig_def)
  have a: "drawLayer_rect default_config ''special'' ''special'' sample_image =
     \<lparr>drawX = 192, drawY = 102.4, drawWidth = 128, drawHeight = 256\<rparr>"
    using other_types_placement [OF p _ _ _ _ refl refl, of "''special''" default_config "''special''"] l
    by (auto simp: sample_image_def default_config_def)
  have b: "drawY (drawLayer_rect default_config ''accessory'' ''neck'' sample_image) = 353.28"
    using other_types_placement [OF p _ _ _ _ refl refl, of "''accessory''" default_config "''neck''"]
    by (simp add: default_config_def)
  show ?thesis using a b by simp
qed

text \<open>
  C10 as stated fails: the layer \<open>hats\<close> of \<open>layerConfig\<close> has the type \<open>accessory\<close>,
  none of the four, and its vertical offset is \<open>canvasH * 0.05\<close>, not \<open>canvasH * 0.2\<close>.
\<close>

theorem hats_offset_counterexample:
  "\<lparr>category = ''hats'', ltype = ''accessory'', optional = False\<rparr> \<in> set layerConfig \<and>
   ''accessory'' \<notin> {''background'', ''base'', ''feature'', ''outfit''} \<and>
   drawY (drawLayer_rect default_config ''accessory'' ''hats'' sample_image) = 25.6 \<and>
   drawY (drawLayer_rect default_config ''accessory'' ''hats'' sample_image) \<noteq>
     height default_config * 0.2"
  by (simp add: layerConfig_def drawLayer_rect_def default_config_def sample_image_def)

section \<open>The trait sequence (C1, C2, C3)\<close>

text \<open>
  C2, as the code has it. For every layer configuration in which no layer has the
  category \<open>species\<close>, and every call whose \<open>try\<close> block completes (the call does not end
  in the emergency result): the trait types of the returned sequence are pairwise
  different, and the species trait is its first entry and its only entry of type
  \<open>species\<close>.
\<close>

theorem traits_distinct_species_first:
  assumes "''species'' \<notin> category ` set (layers cfg)"
    and "fst (generate2DImage_body cfg env ident st) = Inr r"
  shows "distinct (map trait_type (r_attributes r)) \<and>
         (\<exists>rest. r_attributes r = \<lparr>trait_type = ''species'', trait_value = r_species r\<rparr> # rest) \<and>
         length (filter (\<lambda>t. trait_type t = ''species'') (r_attributes r)) = 1"
proof -
  obtain st2 where a: "r_attributes r =
      attributes (process_layers cfg env (r_species r) ident 0 (layers cfg)
        \<lparr>attributes = [\<lparr>trait_type = ''species'', trait_value = r_species r\<rparr>],
         backgroundDrawn = False, drawnCategories = {}, state = st2\<rparr>)"
    using generate2DImage_body_Inr [OF assms(2)] by blast
  let ?s0 = "\<lparr>attributes = [\<lparr>trait_type = ''species'', trait_value = r_species r\<rparr>],
         backgroundDrawn = False, drawnCategories = {}, state = st2\<rparr>"
  have inv: "distinct (map trait_type (r_attributes r)) \<and>
      (\<exists>rest. r_attributes r = attributes ?s0 @ rest)"
    using process_layers_inv [OF assms(1), of ?s0 cfg env "r_species r" ident 0] a by simp
  then obtain rest where rest: "r_attributes r = \<lparr>trait_type = ''species'', trait_value = r_species r\<rparr> # rest"
    by auto
  have d: "distinct (map trait_type (r_attributes r))" using inv by simp
  have "''species'' \<notin> set (map trait_type rest)" using d rest by auto
  then have "filter (\<lambda>t. trait_type t = ''species'') rest = []"
    by (induction rest) auto
  then show ?thesis using d rest by simp
qed

theorem traits_distinct_species_first_witness:
  "''species'' \<notin> category ` set (layers default_config) \<and>
   fst (generate2DImage_body default_config sample_env 1 sample_state) =
     Inr \<lparr>r_nftPath = ''./output/indigo_nft_1.png'', r_attributes = sample_traits, r_species = ''indigo''\<rparr> \<and>
   distinct (map trait_type sample_traits) \<and>
   (\<exists>rest. sample_traits = \<lparr>trait_type = ''species'', trait_value = ''indigo''\<rparr> # rest) \<and>
   length (filter (\<lambda>t. trait_type t = ''species'') sample_traits) = 1"
proof -
  have h1: "''species'' \<notin> category ` set (layers default_config)"
    by (simp add: default_config_simps layerConfig_def)
  have h2: "fst (generate2DImage_body default_config sample_env 1 sample_state) =
     Inr \<lparr>r_nftPath = ''./output/indigo_nft_1.png'', r_attributes = sample_traits, r_species = ''indigo''\<rparr>"
    using sample_body_run [of sample_env sample_state]
    by (simp add: sample_env_simps sample_state_simps)
  show ?thesis using traits_distinct_species_first [OF h1 h2] h1 h2 by simp
qed

text \<open>
  C2 as stated fails for a configuration with a layer of category \<open>species\<close>: the
  duplicate guard only knows the categories drawn, not the species trait.
\<close>

theorem duplicate_species_counterexample:
  "fst (generate2DImage duplicate_species_config nebula_env 1 sample_state) =
     Inr \<lparr>r_nftPath = ''./output/indigo_nft_1.png'',
          r_attributes = [\<lparr>trait_type = ''species'', trait_value = ''indigo''\<rparr>,
                          \<lparr>trait_type = ''species'', trait_value = ''nebula''\<rparr>],
          r_species = ''indigo''\<rparr> \<and>
   \<not> distinct (map trait_type [\<lparr>trait_type = ''species'', trait_value = ''indigo''\<rparr>,
                                \<lparr>trait_type = ''species'', trait_value = ''nebula''\<rparr>])"
proof -
  have c: "layers duplicate_species_config = [\<lparr>category = ''species'', ltype = ''background'', optional = False\<rparr>]"
    "outputFolder duplicate_species_config = ''./output/''"
    by (simp_all add: duplicate_species_config_def default_config_simps)
  have e: "SPECIES nebula_env = None" "writable nebula_env = (\<lambda>p. True)"
    by (simp_all add: nebula_env_def sample_env_simps)
  have "fst (generate2DImage_body duplicate_species_config nebula_env 1 sample_state) =
     Inr \<lparr>r_nftPath = ''./output/indigo_nft_1.png'',
          r_attributes = [\<lparr>trait_type = ''species'', trait_value = ''indigo''\<rparr>,
                          \<lparr>trait_type = ''species'', trait_value = ''nebula''\<rparr>],
          r_species = ''indigo''\<rparr>"
    by (simp add: generate2DImage_body_def c e getSpeciesToGenerate_def sample_state_simps
        duplicate_species_layers_run show_nat_1 writeFileSync_def Let_def
        del: process_layers.simps)
  then show ?thesis
    by (cases "generate2DImage_body duplicate_species_config nebula_env 1 sample_state")
       (simp add: generate2DImage_def)
qed

text \<open>
  C1, as the code has it. For a required layer whose listing for the species answers
  without a storage error and has no candidates (or no renderable candidates), the
  selection throws its error, \<open>No components found\<close> or \<open>No image files found\<close>; the turn
  of the compositing loop catches it and leaves every variable as it was; the error
  never leaves the \<open>try\<close> block of \<open>generate2DImage\<close>; and, when the category of the layer
  is not \<open>species\<close>, a composite for that species that completes has no trait of that
  category.
\<close>

theorem required_layer_without_components:
  assumes "\<not> optional l"
    and "error (storage_list env (sp @ ''/'' @ category l)) = None"
    and "case data (storage_list env (sp @ ''/'' @ category l)) of
           None \<Rightarrow> True
         | Some d \<Rightarrow> filter_files env (sp @ ''/'' @ category l) d = []"
  shows "(fst (getRandomComponent env l sp g) = Inl (NoComponentsFound (sp @ ''/'' @ category l)) \<or>
          fst (getRandomComponent env l sp g) = Inl (NoImageFilesFound (sp @ ''/'' @ category l))) \<and>
         process_layer cfg env sp ident i l s = s \<and>
         (\<forall>cfg' ident' st' p.
            fst (generate2DImage_body cfg' env ident' st') \<noteq> Inl (NoComponentsFound p) \<and>
            fst (generate2DImage_body cfg' env ident' st') \<noteq> Inl (NoImageFilesFound p)) \<and>
         (\<forall>cfg' ident' st' r.
            fst (generate2DImage_body cfg' env ident' st') = Inr r \<and> r_species r = sp \<and>
            category l \<noteq> ''species''
            \<longrightarrow> category l \<notin> trait_type ` set (r_attributes r))"
proof (intro conjI allI impI)
  show "fst (getRandomComponent env l sp g) = Inl (NoComponentsFound (sp @ ''/'' @ category l)) \<or>
        fst (getRandomComponent env l sp g) = Inl (NoImageFilesFound (sp @ ''/'' @ category l))"
    using assms by (rule getRandomComponent_required_error)
next
  show "process_layer cfg env sp ident i l s = s"
    using assms(3) by (rule process_layer_no_candidates)
next
  fix cfg' ident' st' p
  show "fst (generate2DImage_body cfg' env ident' st') \<noteq> Inl (NoComponentsFound p)"
    using generate2DImage_body_Inl [of cfg' env ident' st' "NoComponentsFound p"] by auto
  show "fst (generate2DImage_body cfg' env ident' st') \<noteq> Inl (NoImageFilesFound p)"
    using generate2DImage_body_Inl [of cfg' env ident' st' "NoImageFilesFound p"] by auto
next
  fix cfg' ident' st' r
  assume a: "fst (generate2DImage_body cfg' env ident' st') = Inr r \<and> r_species r = sp \<and>
      category l \<noteq> ''species''"
  obtain st2 where r: "r_attributes r =
      attributes (process_layers cfg' env (r_species r) ident' 0 (layers cfg')
        \<lparr>attributes = [\<lparr>trait_type = ''species'', trait_value = r_species r\<rparr>],
         backgroundDrawn = False, drawnCategories = {}, state = st2\<rparr>)"
    using generate2DImage_body_Inr [of cfg' env ident' st' r] a by blast
  have all: "\<forall>l' \<in> set (layers cfg'). category l' = category l \<longrightarrow>
      (case data (storage_list env (sp @ ''/'' @ category l')) of
         None \<Rightarrow> True
       | Some d \<Rightarrow> filter_files env (sp @ ''/'' @ category l') d = [])"
  proof (intro ballI impI)
    fix l'
    assume "l' \<in> set (layers cfg')" and c: "category l' = category l"
    show "case data (storage_list env (sp @ ''/'' @ category l')) of
         None \<Rightarrow> True
       | Some d \<Rightarrow> filter_files env (sp @ ''/'' @ category l') d = []"
      unfolding c using assms(3) .
  qed
  show "category l \<notin> trait_type ` set (r_attributes r)"
    using process_layers_category_absent [OF all, of
        "\<lparr>attributes = [\<lparr>trait_type = ''species'', trait_value = sp\<rparr>],
          backgroundDrawn = False, drawnCategories = {}, state = st2\<rparr>" cfg' ident' 0] a r
    by simp
qed

theorem required_layer_without_components_witness:
  "fst (getRandomComponent sample_env \<lparr>category = ''clothing'', ltype = ''outfit'', optional = False\<rparr>
          ''indigo'' (\<lambda>n. 1 / 2)) = Inl (NoComponentsFound ''indigo/clothing'') \<and>
   fst (generate2DImage_body default_config sample_env 1 sample_state) =
     Inr \<lparr>r_nftPath = ''./output/indigo_nft_1.png'', r_attributes = sample_traits, r_species = ''indigo''\<rparr> \<and>
   ''clothing'' \<notin> trait_type ` set sample_traits"
proof -
  let ?l = "\<lparr>category = ''clothing'', ltype = ''outfit'', optional = False\<rparr>"
  have h1: "\<not> optional ?l" by simp
  have h2: "error (storage_list sample_env (''indigo'' @ ''/'' @ category ?l)) = None"
    by (simp add: sample_env_simps sample_listing_def)
  have h3: "case data (storage_list sample_env (''indigo'' @ ''/'' @ category ?l)) of
           None \<Rightarrow> True
         | Some d \<Rightarrow> filter_files sample_env (''indigo'' @ ''/'' @ category ?l) d = []"
    by (simp add: sample_env_simps sample_listing_def filter_files_def)
  have b: "fst (generate2DImage_body default_config sample_env 1 sample_state) =
     Inr \<lparr>r_nftPath = ''./output/indigo_nft_1.png'', r_attributes = sample_traits, r_species = ''indigo''\<rparr>"
    using sample_body_run [of sample_env sample_state]
    by (simp add: sample_env_simps sample_state_simps)
  have e: "fst (getRandomComponent sample_env ?l ''indigo'' (\<lambda>n. 1 / 2)) = Inl (NoComponentsFound ''indigo/clothing'')"
    by (simp add: getRandomComponent_def sample_env_simps sample_listing_def)
  note t = required_layer_without_components [OF h1 h2 h3, of "\<lambda>n. 1 / 2" default_config 1 0
      "\<lparr>attributes = [], backgroundDrawn = False, drawnCategories = {}, state = sample_state\<rparr>"]
  let ?R = "\<lparr>r_nftPath = ''./output/indigo_nft_1.png'', r_attributes = sample_traits, r_species = ''indigo''\<rparr>"
  note t4 = t [THEN conjunct2, THEN conjunct2, THEN conjunct2]
  have "category ?l \<notin> trait_type ` set (r_attributes ?R)"
  proof (rule t4 [rule_format, of default_config 1 sample_state ?R])
    show "fst (generate2DImage_body default_config sample_env 1 sample_state) = Inr ?R \<and>
        r_species ?R = ''indigo'' \<and> category ?l \<noteq> ''species''"
      using b by simp
  qed
  then show ?thesis using b e by simp
qed

text \<open>
  C1 as stated fails: with an empty bucket every required layer throws, and the
  generation completes with the species trait alone.
\<close>

theorem empty_bucket_counterexample:
  "\<not> optional \<lparr>category = ''head'', ltype = ''base'', optional = False\<rparr> \<and>
   fst (getRandomComponent empty_bucket_env \<lparr>category = ''head'', ltype = ''base'', optional = False\<rparr>
          ''indigo'' (\<lambda>n. 1 / 2)) = Inl (NoComponentsFound ''indigo/head'') \<and>
   fst (generate2DImage default_config empty_bucket_env 1 sample_state) =
     Inr \<lparr>r_nftPath = ''./output/indigo_nft_1.png'',
          r_attributes = [\<lparr>trait_type = ''species'', trait_value = ''indigo''\<rparr>],
          r_species = ''indigo''\<rparr>"
proof -
  have e: "storage_list empty_bucket_env = (\<lambda>p. \<lparr>data = Some [], error = None\<rparr>)"
    "SPECIES empty_bucket_env = None" "writable empty_bucket_env = (\<lambda>p. True)"
    by (simp_all add: empty_bucket_env_def sample_env_simps)
  have b: "fst (generate2DImage_body default_config empty_bucket_env 1 sample_state) =
     Inr \<lparr>r_nftPath = ''./output/indigo_nft_1.png'',
          r_attributes = [\<lparr>trait_type = ''species'', trait_value = ''indigo''\<rparr>],
          r_species = ''indigo''\<rparr>"
    by (simp add: generate2DImage_body_def default_config_simps e(2,3) getSpeciesToGenerate_def
        sample_state_simps empty_bucket_layers_run [OF e(1)] show_nat_1 writeFileSync_def Let_def
        del: process_layers.simps)
  have g: "fst (generate2DImage default_config empty_bucket_env 1 sample_state) =
     Inr \<lparr>r_nftPath = ''./output/indigo_nft_1.png'',
          r_attributes = [\<lparr>trait_type = ''species'', trait_value = ''indigo''\<rparr>],
          r_species = ''indigo''\<rparr>"
    using b by (cases "generate2DImage_body default_config empty_bucket_env 1 sample_state")
       (simp add: generate2DImage_def)
  show ?thesis using g by (simp add: getRandomComponent_def e(1))
qed

text \<open>
  C3, as the code has it. When the image of the selected component cannot be loaded:
  a layer whose type is not \<open>background\<close> is skipped, no trait of its category is
  appended, its category is not recorded as drawn, the canvas stays as it was, and the
  loop goes on with the next layer; for a layer of type \<open>background\<close> the canvas is
  filled white, \<open>drawLayer\<close> reports the layer as drawn, and the trait of the component
  is appended.
\<close>

theorem undecodable_layer:
  assumes "category l \<notin> drawnCategories s"
    and "getRandomComponent env l sp (rands (state s)) = (Inr (Some ci), g)"
    and "loadImage env (c_url ci) = None"
  shows "(ltype l \<noteq> ''background'' \<longrightarrow>
            attributes (process_layer cfg env sp ident i l s) = attributes s \<and>
            drawnCategories (process_layer cfg env sp ident i l s) = drawnCategories s \<and>
            canvas_ops (state (process_layer cfg env sp ident i l s)) = canvas_ops (state s) \<and>
            process_layers cfg env sp ident i (l # rest) s =
              process_layers cfg env sp ident (i + 1) rest
                (s\<lparr>backgroundDrawn := (if category l = ''background'' then False else backgroundDrawn s),
                   state := (state s)\<lparr>rands := g\<rparr>\<rparr>)) \<and>
         (ltype l = ''background'' \<longrightarrow>
            attributes (process_layer cfg env sp ident i l s) =
              attributes s @ [\<lparr>trait_type = category l, trait_value = fileNameWithoutExt (c_name ci)\<rparr>] \<and>
            drawnCategories (process_layer cfg env sp ident i l s) = insert (category l) (drawnCategories s) \<and>
            canvas_ops (state (process_layer cfg env sp ident i l s)) =
              canvas_ops (state s) @ [FillRect ''#FFFFFF''])"
proof -
  have ci: "c_url ci \<noteq> []" "c_type ci = ltype l"
    using getRandomComponent_Some [OF assms(2)] by simp_all
  note dl = drawLayer_load_failure [OF ci(1) assms(3), of cfg "canvas_ops (state s)"]
  show ?thesis
  proof (intro conjI impI)
    assume nb: "ltype l \<noteq> ''background''"
    then have d: "drawLayer cfg env ci (canvas_ops (state s)) = (False, canvas_ops (state s))"
      using dl ci(2) by simp
    note pl = process_layer_not_drawn [OF assms(1,2) d, where ident = ident and i = i]
    show "attributes (process_layer cfg env sp ident i l s) = attributes s"
      and "drawnCategories (process_layer cfg env sp ident i l s) = drawnCategories s"
      and "canvas_ops (state (process_layer cfg env sp ident i l s)) = canvas_ops (state s)"
      using pl by simp_all
    show "process_layers cfg env sp ident i (l # rest) s =
              process_layers cfg env sp ident (i + 1) rest
                (s\<lparr>backgroundDrawn := (if category l = ''background'' then False else backgroundDrawn s),
                   state := (state s)\<lparr>rands := g\<rparr>\<rparr>)"
      using pl by simp
  next
    assume b: "ltype l = ''background''"
    then have d: "drawLayer cfg env ci (canvas_ops (state s)) =
        (True, canvas_ops (state s) @ [FillRect ''#FFFFFF''])"
      using dl ci(2) by simp
    note pl = process_layer_drawn [OF assms(1,2) d, where ident = ident and i = i]
    show "attributes (process_layer cfg env sp ident i l s) =
              attributes s @ [\<lparr>trait_type = category l, trait_value = fileNameWithoutExt (c_name ci)\<rparr>]"
      using pl(1) .
    show "drawnCategories (process_layer cfg env sp ident i l s) = insert (category l) (drawnCategories s)"
      using pl(2) .
    show "canvas_ops (state (process_layer cfg env sp ident i l s)) =
              canvas_ops (state s) @ [FillRect ''#FFFFFF'']"
      using pl(3) .
  qed
qed

theorem undecodable_layer_witness:
  "attributes (process_layer default_config no_decode_env ''indigo'' 1 1
      \<lparr>category = ''head'', ltype = ''base'', optional = False\<rparr>
      \<lparr>attributes = [\<lparr>trait_type = ''species'', trait_value = ''indigo''\<rparr>],
       backgroundDrawn = False, drawnCategories = {}, state = sample_state\<rparr>) =
     [\<lparr>trait_type = ''species'', trait_value = ''indigo''\<rparr>] \<and>
   attributes (process_layer default_config no_decode_env ''indigo'' 1 0
      \<lparr>category = ''background'', ltype = ''background'', optional = False\<rparr>
      \<lparr>attributes = [\<lparr>trait_type = ''species'', trait_value = ''indigo''\<rparr>],
       backgroundDrawn = False, drawnCategories = {}, state = sample_state\<rparr>) =
     [\<lparr>trait_type = ''species'', trait_value = ''indigo''\<rparr>,
      \<lparr>trait_type = ''background'', trait_value = ''stars''\<rparr>]"
proof -
  let ?s = "\<lparr>attributes = [\<lparr>trait_type = ''species'', trait_value = ''indigo''\<rparr>],
       backgroundDrawn = False, drawnCategories = {}, state = sample_state\<rparr>"
  let ?head = "\<lparr>category = ''head'', ltype = ''base'', optional = False\<rparr>"
  let ?bg = "\<lparr>category = ''background'', ltype = ''background'', optional = False\<rparr>"
  let ?chead = "\<lparr>c_url = ''https://sb/storage/v1/object/public/space-babiez/indigo/head/round.svg'',
      c_name = ''round.svg'', c_category = ''head'', c_type = ''base''\<rparr>"
  let ?cbg = "\<lparr>c_url = ''https://sb/storage/v1/object/public/space-babiez/indigo/background/stars.png'',
      c_name = ''stars.png'', c_category = ''background'', c_type = ''background''\<rparr>"
  have n1: "category ?head \<notin> drawnCategories ?s" and n2: "category ?bg \<notin> drawnCategories ?s"
    by simp_all
  have g1: "getRandomComponent no_decode_env ?head ''indigo'' (rands (state ?s)) =
      (Inr (Some ?chead), \<lambda>n. 1 / 2)"
    by (simp add: no_decode_env_simps sample_listing_def select_defs sample_state_simps)
  have g2: "getRandomComponent no_decode_env ?bg ''indigo'' (rands (state ?s)) =
      (Inr (Some ?cbg), \<lambda>n. 1 / 2)"
    by (simp add: no_decode_env_simps sample_listing_def select_defs sample_state_simps)
  have l1: "loadImage no_decode_env (c_url ?chead) = None"
    and l2: "loadImage no_decode_env (c_url ?cbg) = None"
    by (simp_all add: no_decode_env_simps)
  show ?thesis
    using undecodable_layer [OF n1 g1 l1, of default_config 1 1 "[]"]
      undecodable_layer [OF n2 g2 l2, of default_config 1 0 "[]"]
    by (simp add: fileNameWithoutExt_def substring0_def)
qed

text \<open>
  C3 as stated fails for the background: no image can be loaded, and the trait of the
  background component is in the sequence all the same.
\<close>

theorem undecodable_background_counterexample:
  "loadImage no_decode_env ''https://sb/storage/v1/object/public/space-babiez/indigo/background/stars.png'' = None \<and>
   fst (generate2DImage default_config no_decode_env 1 sample_state) =
     Inr \<lparr>r_nftPath = ''./output/indigo_nft_1.png'',
          r_attributes = [\<lparr>trait_type = ''species'', trait_value = ''indigo''\<rparr>,
                          \<lparr>trait_type = ''background'', trait_value = ''stars''\<rparr>],
          r_species = ''indigo''\<rparr>"
proof -
  have "fst (generate2DImage_body default_config no_decode_env 1 sample_state) =
     Inr \<lparr>r_nftPath = ''./output/indigo_nft_1.png'',
          r_attributes = [\<lparr>trait_type = ''species'', trait_value = ''indigo''\<rparr>,
                          \<lparr>trait_type = ''background'', trait_value = ''stars''\<rparr>],
          r_species = ''indigo''\<rparr>"
    by (simp add: generate2DImage_body_def default_config_simps no_decode_env_simps
        getSpeciesToGenerate_def sample_state_simps no_decode_layers_run show_nat_1
        writeFileSync_def Let_def del: process_layers.simps)
  then show ?thesis
    by (cases "generate2DImage_body default_config no_decode_env 1 sample_state")
       (simp add: generate2DImage_def no_decode_env_simps)
qed

section \<open>The assembler (C8, C9)\<close>

lemma generateNFT_emergency:
  assumes "fst (generate2DImage_body cfg env ident (st\<lparr>canvas_ops := []\<rparr>)) = Inl e"
    and "writable env (outputFolder cfg @ ''emergency_'' @ show_nat ident @ ''.png'')"
  shows "(\<exists>st1. generate2DImage cfg env ident (st\<lparr>canvas_ops := []\<rparr>) =
            (Inr \<lparr>r_nftPath = outputFolder cfg @ ''emergency_'' @ show_nat ident @ ''.png'',
                  r_attributes = [\<lparr>trait_type = ''error'', trait_value = ''generation_failed''\<rparr>],
                  r_species = ''error''\<rparr>, st1) \<and>
            files st1 (outputFolder cfg @ ''emergency_'' @ show_nat ident @ ''.png'') =
              Some (Png [FillRect ''#FF00FF'', FillText (''Error generating NFT #'' @ show_nat ident)])) \<and>
         (writable env (outputFolder cfg @ ''error'' @ ''_nft_'' @ show_nat ident @ ''_pixelated.png'') \<and>
          writable env (outputFolder cfg @ ''error'' @ ''_nft_'' @ show_nat ident @ ''.json'')
          \<longrightarrow> (\<exists>res st'. generateNFT cfg env ident st = (Inr res, st') \<and>
                 n_id res = ident \<and> n_species res = ''error'' \<and>
                 m_attributes (n_metadata res) =
                   [\<lparr>trait_type = ''error'', trait_value = ''generation_failed''\<rparr>] \<and>
                 files st' (outputFolder cfg @ ''emergency_'' @ show_nat ident @ ''.png'') =
                   Some (Png [FillRect ''#FF00FF'', FillText (''Error generating NFT #'' @ show_nat ident)])))"
proof (intro conjI impI)
  let ?E = "outputFolder cfg @ ''emergency_'' @ show_nat ident @ ''.png''"
  let ?P = "outputFolder cfg @ ''error'' @ ''_nft_'' @ show_nat ident @ ''_pixelated.png''"
  let ?J = "outputFolder cfg @ ''error'' @ ''_nft_'' @ show_nat ident @ ''.json''"
  let ?R = "\<lparr>r_nftPath = ?E,
             r_attributes = [\<lparr>trait_type = ''error'', trait_value = ''generation_failed''\<rparr>],
             r_species = ''error''\<rparr>"
  let ?img = "Png [FillRect ''#FF00FF'', FillText (''Error generating NFT #'' @ show_nat ident)]"
  from generate2DImage_emergency [OF assms]
  obtain st1 where g: "generate2DImage cfg env ident (st\<lparr>canvas_ops := []\<rparr>) = (Inr ?R, st1)"
    and f: "files st1 ?E = Some ?img"
    by blast
  show "\<exists>st1. generate2DImage cfg env ident (st\<lparr>canvas_ops := []\<rparr>) = (Inr ?R, st1) \<and>
      files st1 ?E = Some ?img"
    using g f by blast
  assume w: "writable env ?P \<and> writable env ?J"
  from pixelate_total [OF f, of env ?P cfg] w
  obtain p st2 where px: "generateNFT_pixelate cfg env ?E ?P st1 = (Inr p, st2)"
    and keep: "\<forall>q. q \<noteq> ?P \<longrightarrow> files st2 q = files st1 q"
    by blast
  have "?E \<noteq> ?P" by simp
  then have f2: "files st2 ?E = Some ?img" using keep f by simp
  have d: "?J \<noteq> ?E" by simp
  show "\<exists>res st'. generateNFT cfg env ident st = (Inr res, st') \<and>
      n_id res = ident \<and> n_species res = ''error'' \<and>
      m_attributes (n_metadata res) =
        [\<lparr>trait_type = ''error'', trait_value = ''generation_failed''\<rparr>] \<and>
      files st' ?E = Some ?img"
    using g f px f2 d w
    by (simp add: generateNFT_def existsSync_def Let_def writeFileSync_def)
qed

lemma loop_catches:
  assumes "i \<le> count" and "generateNFT cfg env i st0 = (Inl err, st')"
  shows "generateMultipleNFTs_loop cfg env count i results st0 =
         generateMultipleNFTs_loop cfg env count (i + 1) results st'"
  using assms by (simp add: generateMultipleNFTs_loop.simps [of cfg env count i])

lemma loop_last:
  assumes "generateNFT cfg env count st = (Inr res, st2)"
  shows "generateMultipleNFTs_loop cfg env count count results st = (results @ [res], st2)"
  using assms
  by (simp add: generateMultipleNFTs_loop.simps [of cfg env count count]
      generateMultipleNFTs_loop.simps [of cfg env count "Suc count"])

text \<open>
  C8, as the code has it. When the \<open>try\<close> block of \<open>generate2DImage\<close> throws and the
  emergency image can be written, \<open>generate2DImage\<close> does not throw: it returns the path
  of the emergency image, a magenta fill with the text \<open>Error generating NFT #id\<close>, the
  species \<open>error\<close> and the single trait \<open>error = generation_failed\<close>; \<open>generateNFT\<close> then
  returns a result with that species and that trait list once the pixelated copy and
  the metadata can be written. In every case, whatever the environment: when
  \<open>generateNFT\<close> throws for an identifier of the batch, the loop catches it and goes on
  with the next identifier, with the results so far; and the batch returns a result for
  every identifier between 1 and \<open>count\<close> whose generation succeeds from every state.
  It never stops at a bad identifier.
\<close>

theorem emergency_fallback:
  "(fst (generate2DImage_body cfg env ident (st\<lparr>canvas_ops := []\<rparr>)) = Inl e \<and>
    writable env (outputFolder cfg @ ''emergency_'' @ show_nat ident @ ''.png'')
    \<longrightarrow>
      (\<exists>st1. generate2DImage cfg env ident (st\<lparr>canvas_ops := []\<rparr>) =
            (Inr \<lparr>r_nftPath = outputFolder cfg @ ''emergency_'' @ show_nat ident @ ''.png'',
                  r_attributes = [\<lparr>trait_type = ''error'', trait_value = ''generation_failed''\<rparr>],
                  r_species = ''error''\<rparr>, st1) \<and>
            files st1 (outputFolder cfg @ ''emergency_'' @ show_nat ident @ ''.png'') =
              Some (Png [FillRect ''#FF00FF'', FillText (''Error generating NFT #'' @ show_nat ident)])) \<and>
      (writable env (outputFolder cfg @ ''error'' @ ''_nft_'' @ show_nat ident @ ''_pixelated.png'') \<and>
       writable env (outputFolder cfg @ ''error'' @ ''_nft_'' @ show_nat ident @ ''.json'')
       \<longrightarrow> (\<exists>res st'. generateNFT cfg env ident st = (Inr res, st') \<and>
              n_id res = ident \<and> n_species res = ''error'' \<and>
              m_attributes (n_metadata res) =
                [\<lparr>trait_type = ''error'', trait_value = ''generation_failed''\<rparr>] \<and>
              files st' (outputFolder cfg @ ''emergency_'' @ show_nat ident @ ''.png'') =
                Some (Png [FillRect ''#FF00FF'', FillText (''Error generating NFT #'' @ show_nat ident)])))) \<and>
   (\<forall>count i results st0 err st'.
      i \<le> count \<and> generateNFT cfg env i st0 = (Inl err, st')
      \<longrightarrow> generateMultipleNFTs_loop cfg env count i results st0 =
          generateMultipleNFTs_loop cfg env count (i + 1) results st') \<and>
   (\<forall>count i st0.
      1 \<le> i \<and> i \<le> count \<and> (\<forall>s. \<exists>res. fst (generateNFT cfg env i s) = Inr res)
      \<longrightarrow> i \<in> n_id ` set (fst (generateMultipleNFTs cfg env count st0)))"
proof (intro conjI)
  show "fst (generate2DImage_body cfg env ident (st\<lparr>canvas_ops := []\<rparr>)) = Inl e \<and>
    writable env (outputFolder cfg @ ''emergency_'' @ show_nat ident @ ''.png'')
    \<longrightarrow>
      (\<exists>st1. generate2DImage cfg env ident (st\<lparr>canvas_ops := []\<rparr>) =
            (Inr \<lparr>r_nftPath = outputFolder cfg @ ''emergency_'' @ show_nat ident @ ''.png'',
                  r_attributes = [\<lparr>trait_type = ''error'', trait_value = ''generation_failed''\<rparr>],
                  r_species = ''error''\<rparr>, st1) \<and>
            files st1 (outputFolder cfg @ ''emergency_'' @ show_nat ident @ ''.png'') =
              Some (Png [FillRect ''#FF00FF'', FillText (''Error generating NFT #'' @ show_nat ident)])) \<and>
      (writable env (outputFolder cfg @ ''error'' @ ''_nft_'' @ show_nat ident @ ''_pixelated.png'') \<and>
       writable env (outputFolder cfg @ ''error'' @ ''_nft_'' @ show_nat ident @ ''.json'')
       \<longrightarrow> (\<exists>res st'. generateNFT cfg env ident st = (Inr res, st') \<and>
              n_id res = ident \<and> n_species res = ''error'' \<and>
              m_attributes (n_metadata res) =
                [\<lparr>trait_type = ''error'', trait_value = ''generation_failed''\<rparr>] \<and>
              files st' (outputFolder cfg @ ''emergency_'' @ show_nat ident @ ''.png'') =
                Some (Png [FillRect ''#FF00FF'', FillText (''Error generating NFT #'' @ show_nat ident)])))"
  proof
    assume a: "fst (generate2DImage_body cfg env ident (st\<lparr>canvas_ops := []\<rparr>)) = Inl e \<and>
      writable env (outputFolder cfg @ ''emergency_'' @ show_nat ident @ ''.png'')"
    from a have a1: "fst (generate2DImage_body cfg env ident (st\<lparr>canvas_ops := []\<rparr>)) = Inl e"
      and a2: "writable env (outputFolder cfg @ ''emergency_'' @ show_nat ident @ ''.png'')"
      by simp_all
    show "(\<exists>st1. generate2DImage cfg env ident (st\<lparr>canvas_ops := []\<rparr>) =
            (Inr \<lparr>r_nftPath = outputFolder cfg @ ''emergency_'' @ show_nat ident @ ''.png'',
                  r_attributes = [\<lparr>trait_type = ''error'', trait_value = ''generation_failed''\<rparr>],
                  r_species = ''error''\<rparr>, st1) \<and>
            files st1 (outputFolder cfg @ ''emergency_'' @ show_nat ident @ ''.png'') =
              Some (Png [FillRect ''#FF00FF'', FillText (''Error generating NFT #'' @ show_nat ident)])) \<and>
      (writable env (outputFolder cfg @ ''error'' @ ''_nft_'' @ show_nat ident @ ''_pixelated.png'') \<and>
       writable env (outputFolder cfg @ ''error'' @ ''_nft_'' @ show_nat ident @ ''.json'')
       \<longrightarrow> (\<exists>res st'. generateNFT cfg env ident st = (Inr res, st') \<and>
              n_id res = ident \<and> n_species res = ''error'' \<and>
              m_attributes (n_metadata res) =
                [\<lparr>trait_type = ''error'', trait_value = ''generation_failed''\<rparr>] \<and>
              files st' (outputFolder cfg @ ''emergency_'' @ show_nat ident @ ''.png'') =
                Some (Png [FillRect ''#FF00FF'', FillText (''Error generating NFT #'' @ show_nat ident)])))"
      by (rule generateNFT_emergency [OF a1 a2])
  qed
next
  show "\<forall>count i results st0 err st'.
      i \<le> count \<and> generateNFT cfg env i st0 = (Inl err, st')
      \<longrightarrow> generateMultipleNFTs_loop cfg env count i results st0 =
          generateMultipleNFTs_loop cfg env count (i + 1) results st'"
    using loop_catches by blast
next
  show "\<forall>count i st0.
      1 \<le> i \<and> i \<le> count \<and> (\<forall>s. \<exists>res. fst (generateNFT cfg env i s) = Inr res)
      \<longrightarrow> i \<in> n_id ` set (fst (generateMultipleNFTs cfg env count st0))"
  proof (intro allI impI)
    fix count i st0
    assume a: "1 \<le> i \<and> i \<le> count \<and> (\<forall>s. \<exists>res. fst (generateNFT cfg env i s) = Inr res)"
    then show "i \<in> n_id ` set (fst (generateMultipleNFTs cfg env count st0))"
      using loop_reaches [of cfg env i 1 count "[]" st0] by (simp add: generateMultipleNFTs_def)
  qed
qed

theorem emergency_fallback_witness:
  "(\<exists>res st'. generateNFT default_config unsavable_first_env 1 sample_state = (Inr res, st') \<and>
      n_species res = ''error'' \<and>
      m_attributes (n_metadata res) = [\<lparr>trait_type = ''error'', trait_value = ''generation_failed''\<rparr>] \<and>
      files st' ''./output/emergency_1.png'' =
        Some (Png [FillRect ''#FF00FF'', FillText ''Error generating NFT #1''])) \<and>
   fst (generateNFT default_config unwritable_first_env 1 sample_state) =
     Inl (FileError ''./output/emergency_1.png'') \<and>
   map n_id (fst (generateMultipleNFTs default_config unwritable_first_env 2 sample_state)) = [2]"
proof -
  let ?env = unsavable_first_env
  let ?bad = unwritable_first_env
  note t = emergency_fallback [of default_config ?env 1 sample_state
      "FileError ''./output/fallback_indigo_1.png''"]
  have h: "fst (generate2DImage_body default_config ?env 1 (sample_state\<lparr>canvas_ops := []\<rparr>)) =
      Inl (FileError ''./output/fallback_indigo_1.png'') \<and>
      writable ?env (outputFolder default_config @ ''emergency_'' @ show_nat 1 @ ''.png'')"
    using sample_body_unsavable [of ?env "sample_state\<lparr>canvas_ops := []\<rparr>"]
    by (simp add: unsavable_first_env_simps sample_state_simps default_config_simps show_nat_1)
  have w: "writable ?env (outputFolder default_config @ ''error'' @ ''_nft_'' @ show_nat 1 @ ''_pixelated.png'') \<and>
      writable ?env (outputFolder default_config @ ''error'' @ ''_nft_'' @ show_nat 1 @ ''.json'')"
    by (simp add: unsavable_first_env_simps default_config_simps show_nat_1)
  have a: "\<exists>res st'. generateNFT default_config ?env 1 sample_state = (Inr res, st') \<and>
      n_species res = ''error'' \<and>
      m_attributes (n_metadata res) = [\<lparr>trait_type = ''error'', trait_value = ''generation_failed''\<rparr>] \<and>
      files st' ''./output/emergency_1.png'' =
        Some (Png [FillRect ''#FF00FF'', FillText ''Error generating NFT #1''])"
    using t [THEN conjunct1, rule_format, OF h, THEN conjunct2, rule_format, OF w]
    by (auto simp: default_config_simps show_nat_1)
  let ?st = "sample_state\<lparr>canvas_ops := []\<rparr>"
  have b: "generate2DImage_body default_config ?bad 1 ?st =
      (Inl (FileError ''./output/fallback_indigo_1.png''),
       ?st\<lparr>rands := (\<lambda>n. 1 / 2), canvas_ops := sample_canvas\<rparr>)"
    by (rule sample_body_unsavable) (simp_all add: unwritable_first_env_simps sample_state_simps)
  have g: "fst (generateNFT default_config ?bad 1 sample_state) =
      Inl (FileError ''./output/emergency_1.png'')"
    using b
    by (simp add: generateNFT_def generate2DImage_def Let_def writeFileSync_def
        unwritable_first_env_simps default_config_simps show_nat_1)
  obtain x st' where gx0: "generateNFT default_config ?bad 1 sample_state = (x, st')"
    by (cases "generateNFT default_config ?bad 1 sample_state")
  then have gx: "generateNFT default_config ?bad 1 sample_state =
      (Inl (FileError ''./output/emergency_1.png''), st')"
    using g by simp
  have "\<exists>res. fst (generateNFT default_config ?bad 2 st') = Inr res"
    by (rule generateNFT_succeeds)
       (simp_all add: unwritable_first_env_simps default_config_simps show_nat_2)
  then obtain res st2 where g2: "generateNFT default_config ?bad 2 st' = (Inr res, st2)"
    by (cases "generateNFT default_config ?bad 2 st'") auto
  have id2: "n_id res = 2" using g2 by (rule generateNFT_id)
  note tb = emergency_fallback [of default_config ?bad 1 sample_state
      "FileError ''./output/fallback_indigo_1.png''"]
  have "(1::nat) \<le> 2 \<and> generateNFT default_config ?bad 1 sample_state =
      (Inl (FileError ''./output/emergency_1.png''), st')"
    using gx by simp
  then have s1: "generateMultipleNFTs_loop default_config ?bad 2 1 [] sample_state =
      generateMultipleNFTs_loop default_config ?bad 2 (1 + 1) [] st'"
    by (rule tb [THEN conjunct2, THEN conjunct1, rule_format])
  have e: "(1::nat) + 1 = 2" by simp
  have s2: "generateMultipleNFTs_loop default_config ?bad 2 2 [] st' = ([] @ [res], st2)"
    using g2 by (rule loop_last)
  have "fst (generateMultipleNFTs default_config ?bad 2 sample_state) = [] @ [res]"
    by (simp only: generateMultipleNFTs_def s1 e s2 fst_conv)
  then have m: "map n_id (fst (generateMultipleNFTs default_config ?bad 2 sample_state)) = [2]"
    using id2 by simp
  show ?thesis using a g m by blast
qed

text \<open>
  C8 as stated fails when the emergency image cannot be written either: the write in
  the handler throws, \<open>generate2DImage\<close> and \<open>generateNFT\<close> throw, and the batch, which
  catches it, returns no result for that identifier.
\<close>

theorem emergency_write_fails_counterexample:
  "fst (generate2DImage_body default_config readonly_env 1 (sample_state\<lparr>canvas_ops := []\<rparr>)) =
     Inl (FileError ''./output/fallback_indigo_1.png'') \<and>
   fst (generateNFT default_config readonly_env 1 sample_state) =
     Inl (FileError ''./output/emergency_1.png'') \<and>
   fst (generateMultipleNFTs default_config readonly_env 1 sample_state) = []"
proof -
  let ?st = "sample_state\<lparr>canvas_ops := []\<rparr>"
  have b: "generate2DImage_body default_config readonly_env 1 ?st =
      (Inl (FileError ''./output/fallback_indigo_1.png''),
       ?st\<lparr>rands := (\<lambda>n. 1 / 2), canvas_ops := sample_canvas\<rparr>)"
    by (rule sample_body_unsavable) (simp_all add: readonly_env_simps sample_state_simps)
  have g: "fst (generateNFT default_config readonly_env 1 sample_state) =
      Inl (FileError ''./output/emergency_1.png'')"
    using b
    by (simp add: generateNFT_def generate2DImage_def Let_def writeFileSync_def readonly_env_simps
        default_config_simps show_nat_1)
  obtain x st' where gx: "generateNFT default_config readonly_env 1 sample_state = (x, st')"
    by (cases "generateNFT default_config readonly_env 1 sample_state")
  then have x: "x = Inl (FileError ''./output/emergency_1.png'')" using g by simp
  have m: "fst (generateMultipleNFTs default_config readonly_env 1 sample_state) = []"
    using gx x
    by (simp add: generateMultipleNFTs_def generateMultipleNFTs_loop.simps [of _ _ "Suc 0" "Suc 0"]
        generateMultipleNFTs_loop.simps [of _ _ "Suc 0" "Suc (Suc 0)"])
  show ?thesis using b g m by simp
qed

text \<open>
  C9, as the code has it. Let step 1 return with the primary image at its path. When
  the pixelation fails (the library cannot read the image, or its write throws, or its
  write returns without writing while no earlier file is at the pixelated path) and the
  pixelated path can be written by a copy, step 2 of \<open>generateNFT\<close> ends with the
  pixelated path holding an unmodified copy of the primary image; the failure does not
  abort the generation, which completes once the metadata file can be written; the
  pixelated reference of the result is what the upload of that copy answers, and it is
  the reference in the metadata, whose traits are those of step 1.
\<close>

theorem pixelation_failure_falls_back:
  assumes "generate2DImage cfg env ident (st\<lparr>canvas_ops := []\<rparr>) = (Inr r, st1)"
    and "files st1 (r_nftPath r) = Some c"
    and "pixelatedPath = outputFolder cfg @ r_species r @ ''_nft_'' @ show_nat ident @ ''_pixelated.png''"
    and "\<not> jimp_read_ok env c \<or> jimp_writeAsync env pixelatedPath = WriteThrows \<or>
         (jimp_writeAsync env pixelatedPath = NotWritten \<and> files st1 pixelatedPath = None)"
    and "writable env pixelatedPath"
    and "writable env (outputFolder cfg @ r_species r @ ''_nft_'' @ show_nat ident @ ''.json'')"
  shows "\<exists>res st'. generateNFT cfg env ident st = (Inr res, st') \<and>
           files st' pixelatedPath = Some c \<and> files st' (r_nftPath r) = Some c \<and>
           pixelatedUrl res =
             uploadToSupabase env (st1\<lparr>files := (files st1)(pixelatedPath := Some c)\<rparr>)
               pixelatedPath ''nft-storage'' ident \<and>
           m_pixelated (n_metadata res) = pixelatedUrl res \<and>
           m_attributes (n_metadata res) = r_attributes r"
proof -
  let ?json = "outputFolder cfg @ r_species r @ ''_nft_'' @ show_nat ident @ ''.json''"
  have ex: "existsSync st1 (r_nftPath r)" using assms(2) by (simp add: existsSync_def)
  have px: "generateNFT_pixelate cfg env (r_nftPath r) pixelatedPath st1 =
      (Inr pixelatedPath, st1\<lparr>files := (files st1)(pixelatedPath := Some c)\<rparr>)"
    using assms(2,4,5) by (rule pixelate_fallback)
  have d1: "?json \<noteq> r_nftPath r"
    using generate2DImage_result [OF assms(1)] by (intro json_path_distinct) blast
  have d2: "?json \<noteq> pixelatedPath" using assms(3) by simp
  show ?thesis
    using assms(1,2,6) ex px d1 d2 assms(3)
    by (simp add: generateNFT_def Let_def writeFileSync_def)
qed

theorem pixelation_failure_falls_back_witness:
  "\<exists>res st'. generateNFT default_config broken_jimp_env 1 sample_state = (Inr res, st') \<and>
      files st' ''./output/indigo_nft_1_pixelated.png'' = Some (Png sample_canvas) \<and>
      files st' ''./output/indigo_nft_1.png'' = Some (Png sample_canvas) \<and>
      pixelatedUrl res =
        Some ''https://sb/storage/v1/object/public/nft-storage/nfts/indigo/1/indigo_nft_1_pixelated.png''"
proof -
  let ?st = "sample_state\<lparr>canvas_ops := []\<rparr>"
  let ?r = "\<lparr>r_nftPath = ''./output/indigo_nft_1.png'', r_attributes = sample_traits, r_species = ''indigo''\<rparr>"
  let ?st1 = "?st\<lparr>rands := (\<lambda>n. 1 / 2), canvas_ops := sample_canvas,
               files := (files ?st)(''./output/indigo_nft_1.png'' := Some (Png sample_canvas))\<rparr>"
  let ?pix = "''./output/indigo_nft_1_pixelated.png''"
  have g: "generate2DImage default_config broken_jimp_env 1 ?st = (Inr ?r, ?st1)"
    by (rule sample_generate2DImage_run) (simp_all add: broken_jimp_env_simps sample_state_simps)
  have c: "files ?st1 (r_nftPath ?r) = Some (Png sample_canvas)" by simp
  have p: "?pix = outputFolder default_config @ r_species ?r @ ''_nft_'' @ show_nat 1 @ ''_pixelated.png''"
    by (simp add: default_config_simps show_nat_1)
  have f: "\<not> jimp_read_ok broken_jimp_env (Png sample_canvas) \<or>
      jimp_writeAsync broken_jimp_env ?pix = WriteThrows \<or>
      (jimp_writeAsync broken_jimp_env ?pix = NotWritten \<and> files ?st1 ?pix = None)"
    by (simp add: broken_jimp_env_simps)
  have w1: "writable broken_jimp_env ?pix" by (simp add: broken_jimp_env_simps)
  have w2: "writable broken_jimp_env
      (outputFolder default_config @ r_species ?r @ ''_nft_'' @ show_nat 1 @ ''.json'')"
    by (simp add: broken_jimp_env_simps)
  have u: "uploadToSupabase broken_jimp_env (?st1\<lparr>files := (files ?st1)(?pix := Some (Png sample_canvas))\<rparr>)
      ?pix ''nft-storage'' 1 =
      Some ''https://sb/storage/v1/object/public/nft-storage/nfts/indigo/1/indigo_nft_1_pixelated.png''"
    by (simp add: uploadToSupabase_def existsSync_def basename_def startsWith_def show_nat_1
        broken_jimp_env_simps)
  show ?thesis
    using pixelation_failure_falls_back [OF g c p f w1 w2] u by auto
qed

text \<open>
  C9 as stated fails when the pixelated path cannot be written: the write of the
  library throws, the fallback copies throw as well, and \<open>generateNFT\<close> throws.
\<close>

theorem pixelation_failure_aborts_counterexample:
  "jimp_writeAsync readonly_pixelated_env ''./output/indigo_nft_1_pixelated.png'' = WriteThrows \<and>
   fst (generateNFT default_config readonly_pixelated_env 1 sample_state) =
     Inl (FileError ''./output/indigo_nft_1_pixelated.png'')"
proof -
  let ?st = "sample_state\<lparr>canvas_ops := []\<rparr>"
  let ?r = "\<lparr>r_nftPath = ''./output/indigo_nft_1.png'', r_attributes = sample_traits, r_species = ''indigo''\<rparr>"
  let ?st1 = "?st\<lparr>rands := (\<lambda>n. 1 / 2), canvas_ops := sample_canvas,
               files := (files ?st)(''./output/indigo_nft_1.png'' := Some (Png sample_canvas))\<rparr>"
  let ?pix = "''./output/indigo_nft_1_pixelated.png''"
  have g: "generate2DImage default_config readonly_pixelated_env 1 ?st = (Inr ?r, ?st1)"
    by (rule sample_generate2DImage_run) (simp_all add: readonly_pixelated_env_simps sample_state_simps)
  have px: "generateNFT_pixelate default_config readonly_pixelated_env ''./output/indigo_nft_1.png'' ?pix ?st1 =
      (Inl (FileError ?pix), ?st1)"
    by (simp add: generateNFT_pixelate_def generateNFT_copy_original_def pixelateImage_def copyFileSync_def writeFileSync_def
        existsSync_def readonly_pixelated_env_simps default_config_simps)
  have "fst (generateNFT default_config readonly_pixelated_env 1 sample_state) = Inl (FileError ?pix)"
    using g px
    by (simp add: generateNFT_def existsSync_def default_config_simps show_nat_1)
  then show ?thesis by (simp add: readonly_pixelated_env_simps)
qed

end
